theory Spec2Isabelle
  imports Main
begin

section \<open>JavaScript values as the widget sees them\<close>

text \<open>
  The widget (\<^verbatim>\<open>src/static/faq-widget.js\<close>) receives its data from \<^verbatim>\<open>JSON.parse\<close> and
  \<^verbatim>\<open>response.json()\<close>, so a value is a JSON value; \<^verbatim>\<open>undefined\<close> is what reading a
  missing property gives. Strings are lists of 8-bit characters (code units below 256).
  The widget looks at a number only through its sign and truthiness, so a number is an
  integer here. An object is its list of own properties.
\<close>

datatype jsval =
    JUndefined
  | JNull
  | JBool bool
  | JNum int
  | JStr string
  | JArr "jsval list"
  | JObj "(string \<times> jsval) list"

text \<open>Truthiness (\<^verbatim>\<open>ToBoolean\<close>).\<close>

fun truthy :: "jsval \<Rightarrow> bool" where
  "truthy JUndefined = False"
| "truthy JNull = False"
| "truthy (JBool b) = b"
| "truthy (JNum n) = (n \<noteq> 0)"
| "truthy (JStr s) = (s \<noteq> [])"
| "truthy (JArr xs) = True"
| "truthy (JObj kvs) = True"

text \<open>
  \<^verbatim>\<open>v.k\<close> for one of the keys the widget reads (\<^verbatim>\<open>question\<close>, \<^verbatim>\<open>answer\<close>, \<^verbatim>\<open>faqs\<close>,
  \<^verbatim>\<open>faq_file\<close>, \<^verbatim>\<open>just_crawled\<close>, \<^verbatim>\<open>faq_generated\<close>, \<^verbatim>\<open>message\<close>): an object gives
  its own property, every other truthy value gives \<^verbatim>\<open>undefined\<close> (no prototype has
  these keys). Every read in the source is guarded by a truthiness test of \<^verbatim>\<open>v\<close>, so the
  \<^verbatim>\<open>TypeError\<close> of reading from \<^verbatim>\<open>null\<close> or \<^verbatim>\<open>undefined\<close> is never reached.
\<close>

fun get_prop :: "jsval \<Rightarrow> string \<Rightarrow> jsval" where
  "get_prop (JObj kvs) k = (case map_of kvs k of Some v \<Rightarrow> v | None \<Rightarrow> JUndefined)"
| "get_prop _ k = JUndefined"

text \<open>\<^verbatim>\<open>typeof v === 'string'\<close> and \<^verbatim>\<open>Array.isArray(v)\<close>.\<close>

fun typeof_string :: "jsval \<Rightarrow> bool" where
  "typeof_string (JStr s) = True"
| "typeof_string _ = False"

fun isArray :: "jsval \<Rightarrow> bool" where
  "isArray (JArr xs) = True"
| "isArray _ = False"

text \<open>
  \<^verbatim>\<open>String.prototype.trim\<close>: the white space and line terminators of ECMAScript that are
  code units below 256 (TAB, LF, VT, FF, CR, SP, NBSP) are removed from both ends.
\<close>

definition js_whitespace :: "char \<Rightarrow> bool" where
  "js_whitespace c = (of_char c \<in> {9, 10, 11, 12, 13, 32, 160 :: nat})"

definition trim :: "string \<Rightarrow> string" where
  "trim s = rev (dropWhile js_whitespace (rev (dropWhile js_whitespace s)))"

text \<open>
  \<^verbatim>\<open>v.trim()\<close>. The sanitizer calls it only on values it has checked to be strings; on
  anything else JavaScript has no such method.
\<close>

fun js_trim :: "jsval \<Rightarrow> jsval" where
  "js_trim (JStr s) = JStr (trim s)"
| "js_trim _ = JUndefined"

section \<open>The limits set by the constructor\<close>

text \<open>
  The constructor (lines 9--19) assigns six limits; nothing in the file writes them
  again, so they are constants. \<^verbatim>\<open>retryCount\<close> and \<^verbatim>\<open>currentOpenIndex\<close>, which are
  written later, are fields of the widget state below.
\<close>

definition maxRetries :: nat where "maxRetries = 3"
definition retryDelay :: nat where "retryDelay = 2000"
definition requestTimeout :: nat where "requestTimeout = 8000"
definition maxFaqs :: nat where "maxFaqs = 10"
definition maxInlineItems :: nat where "maxInlineItems = 100"
definition maxInlineSize :: nat where "maxInlineSize = 64 * 1024"

section \<open>The sanitizer\<close>

text \<open>
  \<^verbatim>\<open>validateAndLimitFaqs\<close> (lines 519--530):
  \<^verbatim>\<open>
    if (!Array.isArray(faqs)) return [];
    return faqs
      .filter(faq => faq && typeof faq.question === 'string' && typeof faq.answer === 'string')
      .map(faq => ({ question: faq.question.trim(), answer: faq.answer.trim() }))
      .filter(faq => faq.question && faq.answer)
      .slice(0, this.maxFaqs);
  \<close>
\<close>

definition has_text_fields :: "jsval \<Rightarrow> bool" where
  "has_text_fields faq \<longleftrightarrow>
     truthy faq \<and> typeof_string (get_prop faq ''question'') \<and> typeof_string (get_prop faq ''answer'')"

definition trim_fields :: "jsval \<Rightarrow> jsval" where
  "trim_fields faq =
     JObj [(''question'', js_trim (get_prop faq ''question'')),
           (''answer'', js_trim (get_prop faq ''answer''))]"

definition both_nonempty :: "jsval \<Rightarrow> bool" where
  "both_nonempty faq \<longleftrightarrow> truthy (get_prop faq ''question'') \<and> truthy (get_prop faq ''answer'')"

fun validateAndLimitFaqs :: "jsval \<Rightarrow> jsval" where
  "validateAndLimitFaqs (JArr faqs) =
     JArr (take maxFaqs (filter both_nonempty (map trim_fields (filter has_text_fields faqs))))"
| "validateAndLimitFaqs _ = JArr []"

text \<open>
  The sanitizer as the specification words it: an entry survives when its question and
  answer are both text and neither is empty once trimmed; a surviving entry is replaced
  by its trimmed copy.
\<close>

definition survives :: "jsval \<Rightarrow> bool" where
  "survives e =
     (case (get_prop e ''question'', get_prop e ''answer'') of
        (JStr q, JStr a) \<Rightarrow> trim q \<noteq> [] \<and> trim a \<noteq> []
      | _ \<Rightarrow> False)"

definition trimmed_entry :: "jsval \<Rightarrow> jsval" where
  "trimmed_entry e =
     (case (get_prop e ''question'', get_prop e ''answer'') of
        (JStr q, JStr a) \<Rightarrow> JObj [(''question'', JStr (trim q)), (''answer'', JStr (trim a))]
      | _ \<Rightarrow> JUndefined)"

text \<open>A normalised entry: exactly the two fields, both trimmed and non-empty.\<close>

definition normal_faq :: "jsval \<Rightarrow> bool" where
  "normal_faq y \<longleftrightarrow>
     (\<exists>q a. y = JObj [(''question'', JStr q), (''answer'', JStr a)] \<and>
            q \<noteq> [] \<and> a \<noteq> [] \<and> trim q = q \<and> trim a = a)"

section \<open>The widget state\<close>

text \<open>
  The shadow root holds one of the four markups the render methods write. The model keeps
  what the code later reads back from it: the element with class \<^verbatim>\<open>status\<close> and its
  text, and the \<^verbatim>\<open>.faq-question\<close> / \<^verbatim>\<open>.faq-answer\<close> pairs with their
  \<^verbatim>\<open>aria-expanded\<close> and \<^verbatim>\<open>aria-hidden\<close> attributes. Text is kept as text
  (\<^verbatim>\<open>escapeHtml\<close> followed by HTML parsing gives the text back); the style sheet is left out.
\<close>

record item =
  question :: string
  answer :: string
  aria_expanded :: bool
  aria_hidden :: bool

datatype view =
    BlankView
  | LoadingView string string
  | ContentView string "item list"
  | EmptyView string string
  | ErrorView string

text \<open>
  \<^verbatim>\<open>BlankView\<close> is the root just attached; \<^verbatim>\<open>LoadingView heading status\<close> is written by
  \<^verbatim>\<open>renderLoading\<close>; \<^verbatim>\<open>render\<close> writes \<^verbatim>\<open>ContentView heading items\<close> when the sanitized
  list is non-empty and \<^verbatim>\<open>EmptyView heading status\<close> (the notice) when it is empty;
  \<^verbatim>\<open>renderError\<close> writes \<^verbatim>\<open>ErrorView status\<close>.
\<close>

text \<open>A thrown value, by its \<^verbatim>\<open>message\<close>. The text of an engine's own TypeError is fixed
  here to one wording.\<close>

datatype js_error = JsError (message: string)

text \<open>
  The calls that leave the widget, in the order made: \<^verbatim>\<open>fetch\<close> (API base, query
  parameters, abort timer in ms), an awaited \<^verbatim>\<open>delay\<close>, the render methods, and
  \<^verbatim>\<open>JSON.parse\<close> on the inline text. The log is a ghost field of the state.
\<close>

datatype effect =
    Fetch string "(string \<times> string) list" nat
  | Delay nat
  | RenderLoading string
  | Render jsval string
  | RenderStatus string
  | RenderError string
  | JsonParse string

record widget =
  retryCount :: nat
  currentOpenIndex :: int
  shadowRoot :: "view option"
  attributes :: "string \<Rightarrow> string option"
  inlineScript :: "string option"
  jsonLd :: "(string \<times> jsval) option"
  trace :: "effect list"

text \<open>
  \<^verbatim>\<open>attributes\<close> is \<^verbatim>\<open>getAttribute\<close>; \<^verbatim>\<open>inlineScript\<close> is the text of the child
  \<^verbatim>\<open>script[type="application/json"]\<close>, if there is one; \<^verbatim>\<open>jsonLd\<close> is the structured-data
  block the widget has appended to the light DOM (its name and its entries). The CSS
  variables of \<^verbatim>\<open>applyConfig\<close> are not part of the model.
\<close>

definition FAQWidget :: "(string \<Rightarrow> string option) \<Rightarrow> string option \<Rightarrow> widget" where
  "FAQWidget attrs script =
     \<lparr> retryCount = 0, currentOpenIndex = - 1, shadowRoot = None, attributes = attrs,
       inlineScript = script, jsonLd = None, trace = [] \<rparr>"

definition null_root :: js_error where
  "null_root = JsError ''Cannot read properties of null''"

definition undefined_element :: js_error where
  "undefined_element = JsError ''Cannot read properties of undefined''"

definition record_call :: "effect \<Rightarrow> widget \<Rightarrow> widget" where
  "record_call e w = w\<lparr>trace := trace w @ [e]\<rparr>"

section \<open>Rendering\<close>

fun elements :: "jsval \<Rightarrow> jsval list" where
  "elements (JArr xs) = xs"
| "elements _ = []"

text \<open>The text a sanitized field shows; the sanitizer leaves strings only.\<close>

fun text_of :: "jsval \<Rightarrow> string" where
  "text_of (JStr s) = s"
| "text_of _ = []"

text \<open>\<^verbatim>\<open>buildAccordion\<close> (lines 348--371): every item starts closed.\<close>

definition buildAccordion :: "jsval \<Rightarrow> item list" where
  "buildAccordion faqs =
     map (\<lambda>faq. \<lparr> question = text_of (get_prop faq ''question''),
                   answer = text_of (get_prop faq ''answer''),
                   aria_expanded = False, aria_hidden = True \<rparr>) (elements faqs)"

text \<open>
  \<^verbatim>\<open>render\<close> (lines 224--346) sanitizes, replaces \<^verbatim>\<open>shadowRoot.innerHTML\<close> and attaches the
  listeners. It assigns nothing else: \<^verbatim>\<open>currentOpenIndex\<close> is not written.
\<close>

definition render :: "widget \<Rightarrow> jsval \<Rightarrow> string \<Rightarrow> js_error + widget" where
  "render w faqs heading =
     (let validFaqs = validateAndLimitFaqs faqs in
      case shadowRoot w of
        None \<Rightarrow> Inl null_root
      | Some _ \<Rightarrow>
          Inr (record_call (Render faqs heading)
            (w\<lparr>shadowRoot :=
                 Some (if length (elements validFaqs) > 0
                       then ContentView heading (buildAccordion validFaqs)
                       else EmptyView heading ''No FAQs available'')\<rparr>)))"

text \<open>\<^verbatim>\<open>renderLoading\<close> (lines 440--485) and \<^verbatim>\<open>renderError\<close> (lines 494--517).\<close>

definition renderLoading :: "widget \<Rightarrow> string \<Rightarrow> js_error + widget" where
  "renderLoading w heading =
     (case shadowRoot w of
        None \<Rightarrow> Inl null_root
      | Some _ \<Rightarrow>
          Inr (record_call (RenderLoading heading)
            (w\<lparr>shadowRoot := Some (LoadingView heading ''Loading FAQs...'')\<rparr>)))"

definition renderError :: "widget \<Rightarrow> string \<Rightarrow> js_error + widget" where
  "renderError w msg =
     (case shadowRoot w of
        None \<Rightarrow> Inl null_root
      | Some _ \<Rightarrow> Inr (record_call (RenderError msg) (w\<lparr>shadowRoot := Some (ErrorView msg)\<rparr>)))"

text \<open>
  \<^verbatim>\<open>renderStatus\<close> (lines 487--492) rewrites the text of the first \<^verbatim>\<open>.status\<close> element,
  when the current markup has one.
\<close>

fun set_status :: "string \<Rightarrow> view \<Rightarrow> view" where
  "set_status msg (LoadingView heading _) = LoadingView heading msg"
| "set_status msg (EmptyView heading _) = EmptyView heading msg"
| "set_status msg (ErrorView _) = ErrorView msg"
| "set_status msg v = v"

definition renderStatus :: "widget \<Rightarrow> string \<Rightarrow> js_error + widget" where
  "renderStatus w msg =
     (case shadowRoot w of
        None \<Rightarrow> Inl null_root
      | Some v \<Rightarrow> Inr (record_call (RenderStatus msg) (w\<lparr>shadowRoot := Some (set_status msg v)\<rparr>)))"

text \<open>
  \<^verbatim>\<open>injectJsonLd\<close> (lines 532--561): nothing when the sanitized list is empty, else the
  previous block is replaced.
\<close>

definition injectJsonLd :: "widget \<Rightarrow> jsval \<Rightarrow> string \<Rightarrow> widget" where
  "injectJsonLd w faqs heading =
     (let validFaqs = validateAndLimitFaqs faqs in
      if length (elements validFaqs) = 0 then w
      else w\<lparr>jsonLd := Some (heading, validFaqs)\<rparr>)"

section \<open>The accordion\<close>

text \<open>
  \<^verbatim>\<open>querySelectorAll('.faq-question')\<close> and \<^verbatim>\<open>('.faq-answer')\<close>: only the content markup
  has such elements, one pair per item.
\<close>

fun view_items :: "view \<Rightarrow> item list" where
  "view_items (ContentView heading items) = items"
| "view_items _ = []"

fun set_items :: "view \<Rightarrow> item list \<Rightarrow> view" where
  "set_items (ContentView heading _) items = ContentView heading items"
| "set_items v items = v"

text \<open>
  \<^verbatim>\<open>openItem\<close> and \<^verbatim>\<open>closeItem\<close> (lines 402--416) read \<^verbatim>\<open>questions[index]\<close> and
  \<^verbatim>\<open>answers[index]\<close>; outside the list both are \<^verbatim>\<open>undefined\<close> and \<^verbatim>\<open>setAttribute\<close>
  raises before anything is written.
\<close>

definition openItem :: "int \<Rightarrow> item list \<Rightarrow> js_error + item list" where
  "openItem index items =
     (if 0 \<le> index \<and> index < int (length items)
      then Inr (items[nat index := (items ! nat index)\<lparr>aria_expanded := True, aria_hidden := False\<rparr>])
      else Inl undefined_element)"

definition closeItem :: "int \<Rightarrow> item list \<Rightarrow> js_error + item list" where
  "closeItem index items =
     (if 0 \<le> index \<and> index < int (length items)
      then Inr (items[nat index := (items ! nat index)\<lparr>aria_expanded := False, aria_hidden := True\<rparr>])
      else Inl undefined_element)"

text \<open>
  \<^verbatim>\<open>toggleItem\<close> (lines 382--400). The result is the state the call leaves and the error
  it raised, if any: what was written before a raise stays written.
\<close>

definition toggleItem :: "widget \<Rightarrow> int \<Rightarrow> widget \<times> js_error option" where
  "toggleItem w index =
     (case shadowRoot w of
        None \<Rightarrow> (w, Some null_root)
      | Some v \<Rightarrow>
          if currentOpenIndex w = index then
            (case closeItem index (view_items v) of
               Inl e \<Rightarrow> (w, Some e)
             | Inr closed \<Rightarrow>
                 (w\<lparr>shadowRoot := Some (set_items v closed), currentOpenIndex := - 1\<rparr>, None))
          else
            (case (if currentOpenIndex w \<ge> 0 then closeItem (currentOpenIndex w) (view_items v)
                   else Inr (view_items v)) of
               Inl e \<Rightarrow> (w, Some e)
             | Inr closed \<Rightarrow>
                 (case openItem index closed of
                    Inl e \<Rightarrow> (w\<lparr>shadowRoot := Some (set_items v closed)\<rparr>, Some e)
                  | Inr opened \<Rightarrow>
                      (w\<lparr>shadowRoot := Some (set_items v opened), currentOpenIndex := index\<rparr>,
                       None))))"

text \<open>An item is open when its question is expanded or its answer is not hidden.\<close>

definition is_open :: "item \<Rightarrow> bool" where
  "is_open it \<longleftrightarrow> aria_expanded it \<or> \<not> aria_hidden it"

definition open_items :: "widget \<Rightarrow> nat list" where
  "open_items w =
     (case shadowRoot w of
        None \<Rightarrow> []
      | Some v \<Rightarrow> filter (\<lambda>i. is_open (view_items v ! i)) [0 ..< length (view_items v)])"

definition item_count :: "widget \<Rightarrow> nat" where
  "item_count w = (case shadowRoot w of None \<Rightarrow> 0 | Some v \<Rightarrow> length (view_items v))"

text \<open>A run of clicks, each on some question.\<close>

fun toggle_all :: "widget \<Rightarrow> int list \<Rightarrow> widget" where
  "toggle_all w [] = w"
| "toggle_all w (i # is) = toggle_all (fst (toggleItem w i)) is"

section \<open>Requests\<close>

text \<open>Decimal text of a number, as a template literal prints it.\<close>

fun show_nat :: "nat \<Rightarrow> string" where
  "show_nat n =
     (if n < 10 then [''0123456789'' ! n]
      else show_nat (n div 10) @ [''0123456789'' ! (n mod 10)])"

declare show_nat.simps [simp del]

text \<open>
  What one \<^verbatim>\<open>fetch\<close> comes to: it rejects (\<^verbatim>\<open>NetworkError\<close> with the rejection's
  message), the abort timer fires first (\<^verbatim>\<open>Aborted\<close>), or a response arrives with its
  status and with what \<^verbatim>\<open>response.json()\<close> then gives, a value or a rejection.
\<close>

datatype fetch_outcome =
    NetworkError string
  | Aborted
  | Response nat "js_error + jsval"

definition response_ok :: "nat \<Rightarrow> bool" where
  "response_ok status \<longleftrightarrow> 200 \<le> status \<and> status \<le> 299"

text \<open>
  \<^verbatim>\<open>fetchFaqs\<close> (lines 191--222) in two halves: the call it makes, and what it returns or
  throws once that call has settled.
\<close>

definition query_params :: "string \<Rightarrow> string option \<Rightarrow> bool \<Rightarrow> (string \<times> string) list" where
  "query_params url lang forceRefresh =
     [(''url'', url)]
     @ (case lang of None \<Rightarrow> [] | Some l \<Rightarrow> if l \<noteq> [] then [(''target_language'', l)] else [])
     @ (if forceRefresh then [(''force_refresh'', ''true'')] else [])"

definition fetchFaqs :: "widget \<Rightarrow> string \<Rightarrow> string \<Rightarrow> string option \<Rightarrow> bool \<Rightarrow> widget" where
  "fetchFaqs w api url lang forceRefresh =
     record_call (Fetch api (query_params url lang forceRefresh) requestTimeout) w"

fun fetchFaqs_result :: "fetch_outcome \<Rightarrow> js_error + jsval" where
  "fetchFaqs_result (NetworkError m) = Inl (JsError m)"
| "fetchFaqs_result Aborted = Inl (JsError ''Request timeout'')"
| "fetchFaqs_result (Response status body) =
     (if \<not> response_ok status then Inl (JsError (''HTTP '' @ show_nat status)) else body)"

definition delay :: "widget \<Rightarrow> nat \<Rightarrow> widget" where
  "delay w ms = record_call (Delay ms) w"

section \<open>Reading a response\<close>

text \<open>\<^verbatim>\<open>v.length\<close> of a truthy value.\<close>

fun length_prop :: "jsval \<Rightarrow> jsval" where
  "length_prop (JArr xs) = JNum (int (length xs))"
| "length_prop (JStr s) = JNum (int (length s))"
| "length_prop (JObj kvs) = get_prop (JObj kvs) ''length''"
| "length_prop _ = JUndefined"

text \<open>
  \<^verbatim>\<open>x > 0\<close>. A string, an array or an object is first converted to a primitive and its
  text read as a number; that conversion is outside the model (\<^verbatim>\<open>None\<close>). It arises only
  when \<^verbatim>\<open>faqs\<close> is an object with a \<^verbatim>\<open>length\<close> property of its own that is not a number.
\<close>

fun gt_zero :: "jsval \<Rightarrow> bool option" where
  "gt_zero (JNum n) = Some (n > 0)"
| "gt_zero JUndefined = Some False"
| "gt_zero JNull = Some False"
| "gt_zero (JBool b) = Some b"
| "gt_zero _ = None"

text \<open>\<^verbatim>\<open>result && result.faqs && result.faqs.length > 0\<close> (lines 140 and 164).\<close>

definition has_faqs :: "jsval \<Rightarrow> bool option" where
  "has_faqs result =
     (if truthy result \<and> truthy (get_prop result ''faqs'')
      then gt_zero (length_prop (get_prop result ''faqs''))
      else Some False)"

text \<open>\<^verbatim>\<open>s.includes(p)\<close> on strings.\<close>

fun str_includes :: "string \<Rightarrow> string \<Rightarrow> bool" where
  "str_includes [] p = (p = [])"
| "str_includes (c # cs) p = (take (length p) (c # cs) = p \<or> str_includes cs p)"

text \<open>
  \<^verbatim>\<open>result.message.includes('generating')\<close> for a truthy message: a substring test on a
  string, a membership test on an array, and a TypeError on anything else.
\<close>

fun includes_generating :: "jsval \<Rightarrow> js_error + bool" where
  "includes_generating (JStr s) = Inr (str_includes s ''generating'')"
| "includes_generating (JArr xs) = Inr (JStr ''generating'' \<in> set xs)"
| "includes_generating _ = Inl (JsError ''result.message.includes is not a function'')"

text \<open>The \<^verbatim>\<open>shouldRetry\<close> expression (lines 149--154), evaluated left to right.\<close>

definition shouldRetry :: "jsval \<Rightarrow> js_error + bool" where
  "shouldRetry result =
     (if \<not> truthy result then Inr False
      else if truthy (get_prop result ''faq_file'') then Inr True
      else if truthy (get_prop result ''just_crawled'') then Inr True
      else if truthy (get_prop result ''faq_generated'') then Inr True
      else if \<not> truthy (get_prop result ''message'') then Inr False
      else includes_generating (get_prop result ''message''))"

text \<open>
  \<^verbatim>\<open>result.faq_file && (!result.faqs || result.faqs.length === 0)\<close> (line 162), read once
  \<^verbatim>\<open>shouldRetry\<close> is truthy.
\<close>

definition wants_refresh :: "jsval \<Rightarrow> bool" where
  "wants_refresh result \<longleftrightarrow>
     truthy (get_prop result ''faq_file'') \<and>
     (\<not> truthy (get_prop result ''faqs'') \<or> length_prop (get_prop result ''faqs'') = JNum 0)"

section \<open>The retry loop\<close>

text \<open>
  \<^verbatim>\<open>loadFaqsWithRetry(api, url, lang, heading, jsonld)\<close> (lines 133--189) is an async
  function: it runs until an \<^verbatim>\<open>await\<close>, and is resumed when the awaited promise settles.
  A cycle is one call with its arguments; it is suspended at the \<^verbatim>\<open>await\<close> of line 138
  (\<^verbatim>\<open>AtFetch\<close>), of line 163 (\<^verbatim>\<open>AtRefresh\<close>) or of lines 176 and 184 (\<^verbatim>\<open>AtDelay\<close>).
\<close>

record cycle =
  c_api :: string
  c_url :: string
  c_lang :: "string option"
  c_heading :: string
  c_jsonld :: bool

datatype suspension = AtFetch | AtRefresh | AtDelay

text \<open>
  How a stretch of the function ends: it returns, throws, suspends, reaches the end of
  the \<^verbatim>\<open>try\<close> statement (\<^verbatim>\<open>NextIteration\<close>), or leaves the model (see \<^verbatim>\<open>gt_zero\<close>).
\<close>

datatype signal = Return | Throw js_error | Await suspension | NextIteration | Unmodelled

definition finish :: "js_error + widget \<Rightarrow> widget \<Rightarrow> widget \<times> signal" where
  "finish r w = (case r of Inl e \<Rightarrow> (w, Throw e) | Inr w' \<Rightarrow> (w', Return))"

text \<open>Lines 141--145 and 165--169: render, publish, return.\<close>

definition show_faqs :: "widget \<Rightarrow> cycle \<Rightarrow> jsval \<Rightarrow> widget \<times> signal" where
  "show_faqs w c faqs =
     (case render w faqs (c_heading c) of
        Inl e \<Rightarrow> (w, Throw e)
      | Inr w1 \<Rightarrow> (if c_jsonld c then injectJsonLd w1 faqs (c_heading c) else w1, Return))"

text \<open>Lines 173--177.\<close>

definition retry_message :: "nat \<Rightarrow> string" where
  "retry_message k =
     ''Generating FAQs... retrying ('' @ show_nat k @ ''/'' @ show_nat maxRetries @ '')''"

definition count_attempt :: "widget \<Rightarrow> widget \<times> signal" where
  "count_attempt w =
     (let w1 = w\<lparr>retryCount := retryCount w + 1\<rparr> in
      if retryCount w1 < maxRetries then
        (case renderStatus w1 (retry_message (retryCount w1)) of
           Inl e \<Rightarrow> (w1, Throw e)
         | Inr w2 \<Rightarrow> (delay w2 retryDelay, Await AtDelay))
      else (w1, NextIteration))"

text \<open>The \<^verbatim>\<open>try\<close> block from line 140 on, entered with the value of the first request.\<close>

definition after_fetch :: "widget \<Rightarrow> cycle \<Rightarrow> jsval \<Rightarrow> widget \<times> signal" where
  "after_fetch w c result =
     (case has_faqs result of
        None \<Rightarrow> (w, Unmodelled)
      | Some True \<Rightarrow> show_faqs w c (get_prop result ''faqs'')
      | Some False \<Rightarrow>
          (case shouldRetry result of
             Inl e \<Rightarrow> (w, Throw e)
           | Inr False \<Rightarrow> finish (renderError w ''No FAQs available for this page'') w
           | Inr True \<Rightarrow>
               if wants_refresh result
               then (fetchFaqs w (c_api c) (c_url c) (c_lang c) True, Await AtRefresh)
               else count_attempt w))"

text \<open>The \<^verbatim>\<open>try\<close> block from line 164 on, entered with the value of the forced refresh.\<close>

definition after_refresh :: "widget \<Rightarrow> cycle \<Rightarrow> jsval \<Rightarrow> widget \<times> signal" where
  "after_refresh w c refreshResult =
     (case has_faqs refreshResult of
        None \<Rightarrow> (w, Unmodelled)
      | Some True \<Rightarrow> show_faqs w c (get_prop refreshResult ''faqs'')
      | Some False \<Rightarrow> count_attempt w)"

text \<open>The \<^verbatim>\<open>catch\<close> block (lines 178--185).\<close>

definition catch_block :: "widget \<Rightarrow> js_error \<Rightarrow> widget \<times> signal" where
  "catch_block w error =
     (let w1 = w\<lparr>retryCount := retryCount w + 1\<rparr> in
      if retryCount w1 \<ge> maxRetries
      then finish (renderError w1 (''Failed to load FAQs: '' @ message error)) w1
      else (delay w1 retryDelay, Await AtDelay))"

text \<open>
  The loop test (line 136): another request (line 138), or the statement after the loop
  (line 188).
\<close>

definition loop_head :: "widget \<Rightarrow> cycle \<Rightarrow> widget \<times> signal" where
  "loop_head w c =
     (if retryCount w < maxRetries
      then (fetchFaqs w (c_api c) (c_url c) (c_lang c) False, Await AtFetch)
      else finish (renderError w ''No FAQs generated after multiple attempts'') w)"

text \<open>What is thrown inside \<^verbatim>\<open>try\<close> goes to \<^verbatim>\<open>catch\<close>; its end goes to the loop test.\<close>

fun try_catch :: "cycle \<Rightarrow> widget \<times> signal \<Rightarrow> widget \<times> signal" where
  "try_catch c (w, Throw e) = catch_block w e"
| "try_catch c (w, NextIteration) = loop_head w c"
| "try_catch c (w, s) = (w, s)"

text \<open>The call itself, up to its first \<^verbatim>\<open>await\<close>, and the three resumptions.\<close>

definition loadFaqsWithRetry :: "widget \<Rightarrow> cycle \<Rightarrow> widget \<times> signal" where
  "loadFaqsWithRetry w c = loop_head (w\<lparr>retryCount := 0\<rparr>) c"

definition resume_fetch :: "widget \<Rightarrow> cycle \<Rightarrow> fetch_outcome \<Rightarrow> widget \<times> signal" where
  "resume_fetch w c outcome =
     (case fetchFaqs_result outcome of
        Inl e \<Rightarrow> catch_block w e
      | Inr result \<Rightarrow> try_catch c (after_fetch w c result))"

definition resume_refresh :: "widget \<Rightarrow> cycle \<Rightarrow> fetch_outcome \<Rightarrow> widget \<times> signal" where
  "resume_refresh w c outcome =
     (case fetchFaqs_result outcome of
        Inl e \<Rightarrow> catch_block w e
      | Inr refreshResult \<Rightarrow> try_catch c (after_refresh w c refreshResult))"

definition resume_delay :: "widget \<Rightarrow> cycle \<Rightarrow> widget \<times> signal" where
  "resume_delay w c = loop_head w c"

section \<open>One cycle run to its end\<close>

text \<open>
  A cycle alone on the widget: every awaited promise settles, the \<open>n\<close>-th request with
  \<open>env n\<close>. The run ends because each resumption uses up part of the retry budget.
\<close>

fun budget :: "widget \<times> signal \<Rightarrow> nat" where
  "budget (w, Await AtFetch) = 3 * (maxRetries - retryCount w) + 2"
| "budget (w, Await AtRefresh) = 3 * (maxRetries - retryCount w) + 1"
| "budget (w, Await AtDelay) = 3 * (maxRetries - retryCount w) + 3"
| "budget (w, s) = 0"

lemma retryCount_record_call [simp]: "retryCount (record_call e w) = retryCount w"
  by (simp add: record_call_def)

lemma retryCount_renderStatus: "renderStatus w msg = Inr w' \<Longrightarrow> retryCount w' = retryCount w"
  by (auto simp: renderStatus_def split: option.splits)

lemma budget_finish [simp]: "budget (finish r w) = 0"
  by (cases r) (simp_all add: finish_def)

lemma budget_catch_block: "budget (catch_block w e) \<le> 3 * (maxRetries - retryCount w)"
  by (auto simp: catch_block_def Let_def delay_def)

lemma budget_loop_head: "budget (loop_head w c) \<le> 3 * (maxRetries - retryCount w) + 2"
  by (auto simp: loop_head_def fetchFaqs_def)

lemma budget_try_finish: "budget (try_catch c (finish r w)) \<le> 3 * (maxRetries - retryCount w)"
  by (cases r) (simp_all add: finish_def budget_catch_block)

lemma budget_try_show_faqs:
  "budget (try_catch c (show_faqs w c faqs)) \<le> 3 * (maxRetries - retryCount w)"
  by (cases "render w faqs (c_heading c)") (simp_all add: show_faqs_def budget_catch_block)

lemma budget_try_count_attempt:
  "budget (try_catch c (count_attempt w)) \<le> 3 * (maxRetries - retryCount w)"
proof (cases "retryCount w + 1 < maxRetries")
  case True
  show ?thesis
  proof (cases "renderStatus (w\<lparr>retryCount := retryCount w + 1\<rparr>) (retry_message (retryCount w + 1))")
    case (Inl e)
    then show ?thesis using True
      budget_catch_block [of "w\<lparr>retryCount := retryCount w + 1\<rparr>" e]
      by (simp add: count_attempt_def Let_def)
  next
    case (Inr w2)
    then show ?thesis using True retryCount_renderStatus [OF Inr]
      by (simp add: count_attempt_def Let_def delay_def)
  qed
next
  case False
  then show ?thesis
    by (simp add: count_attempt_def Let_def loop_head_def)
qed

lemma budget_resume_fetch: "budget (resume_fetch w c outcome) < budget (w, Await AtFetch)"
proof (cases "fetchFaqs_result outcome")
  case (Inl e)
  then show ?thesis using budget_catch_block [of w e] by (simp add: resume_fetch_def)
next
  case (Inr result)
  have "budget (try_catch c (after_fetch w c result)) \<le> 3 * (maxRetries - retryCount w) + 1"
    using budget_try_show_faqs [of c w] budget_try_finish [of c _ w]
      budget_try_count_attempt [of c w] budget_catch_block [of w]
    by (auto simp: after_fetch_def fetchFaqs_def le_Suc_eq
        split: option.splits bool.splits sum.splits)
  then show ?thesis using Inr by (simp add: resume_fetch_def)
qed

lemma budget_resume_refresh: "budget (resume_refresh w c outcome) < budget (w, Await AtRefresh)"
proof (cases "fetchFaqs_result outcome")
  case (Inl e)
  then show ?thesis using budget_catch_block [of w e] by (simp add: resume_refresh_def)
next
  case (Inr result)
  have "budget (try_catch c (after_refresh w c result)) \<le> 3 * (maxRetries - retryCount w)"
    using budget_try_show_faqs [of c w] budget_try_count_attempt [of c w]
    by (auto simp: after_refresh_def split: option.splits bool.splits)
  then show ?thesis using Inr by (simp add: resume_refresh_def)
qed

lemma budget_resume_delay: "budget (resume_delay w c) < budget (w, Await AtDelay)"
  using budget_loop_head [of w c] by (simp add: resume_delay_def)

function (sequential) run ::
  "(nat \<Rightarrow> fetch_outcome) \<Rightarrow> nat \<Rightarrow> cycle \<Rightarrow> widget \<times> signal \<Rightarrow> (widget \<times> signal) \<times> nat" where
  "run env n c (w, Await AtFetch) = run env (Suc n) c (resume_fetch w c (env n))"
| "run env n c (w, Await AtRefresh) = run env (Suc n) c (resume_refresh w c (env n))"
| "run env n c (w, Await AtDelay) = run env n c (resume_delay w c)"
| "run env n c (w, s) = ((w, s), n)"
  by pat_completeness auto
termination
  by (relation "measure (\<lambda>(env, n, c, st). budget st)")
     (simp_all add: budget_resume_fetch budget_resume_refresh budget_resume_delay
        del: budget.simps)


section \<open>Mounting\<close>

text \<open>
  \<^verbatim>\<open>getInlineJson\<close> (lines 73--100); \<^verbatim>\<open>JNull\<close> is its \<^verbatim>\<open>null\<close>. \<^verbatim>\<open>JSON.parse\<close> is the
  parameter \<open>parse\<close>, \<^verbatim>\<open>None\<close> where it throws. The result is the value returned and
  the state, in which the call of \<^verbatim>\<open>JSON.parse\<close> (line 86), when it is reached, has been
  logged.
\<close>

definition getInlineJson ::
  "(string \<Rightarrow> jsval option) \<Rightarrow> widget \<Rightarrow> jsval \<times> widget" where
  "getInlineJson parse w =
     (case inlineScript w of
        None \<Rightarrow> (JNull, w)
      | Some text \<Rightarrow>
          if length text > maxInlineSize then (JNull, w)
          else (let w1 = record_call (JsonParse text) w in
                case parse text of
                  None \<Rightarrow> (JNull, w1)
                | Some data \<Rightarrow>
                    if \<not> isArray data then (JNull, w1)
                    else if length (elements data) > maxInlineItems
                    then (JArr (take maxInlineItems (elements data)), w1)
                    else (data, w1)))"

text \<open>\<^verbatim>\<open>this.getAttribute(name) || fallback\<close>.\<close>

definition attribute_or :: "widget \<Rightarrow> string \<Rightarrow> string \<Rightarrow> string" where
  "attribute_or w name fallback =
     (case attributes w name of None \<Rightarrow> fallback | Some v \<Rightarrow> if v \<noteq> [] then v else fallback)"

text \<open>
  \<^verbatim>\<open>initializeWidget\<close> (lines 36--71). The result is the new state and, when remote
  resolution was started, the cycle with the point it is suspended at. The root is
  attached before any render method runs, so none of them raises here.
\<close>

definition initializeWidget ::
  "(string \<Rightarrow> jsval option) \<Rightarrow> widget \<Rightarrow> widget \<times> (cycle \<times> signal) option" where
  "initializeWidget parse w =
     (let api = attribute_or w ''data-api'' ''http://localhost:8000'';
          url = attributes w ''data-url'';
          lang = attributes w ''data-lang'';
          heading = attribute_or w ''data-heading'' ''Frequently Asked Questions'';
          jsonld = (attributes w ''data-jsonld'' \<noteq> Some ''off'');
          w0 = (if shadowRoot w = None then w\<lparr>shadowRoot := Some BlankView\<rparr> else w);
          inlineJson = fst (getInlineJson parse w0);
          w1 = snd (getInlineJson parse w0)
      in if truthy inlineJson then
           (case render w1 inlineJson heading of
              Inl e \<Rightarrow> (w1, None)
            | Inr w2 \<Rightarrow> (if jsonld then injectJsonLd w2 inlineJson heading else w2, None))
         else
           (case url of
              None \<Rightarrow> (case renderError w1 ''No URL provided and no inline FAQs found'' of
                         Inl e \<Rightarrow> (w1, None) | Inr w2 \<Rightarrow> (w2, None))
            | Some u \<Rightarrow>
                if u = [] then
                  (case renderError w1 ''No URL provided and no inline FAQs found'' of
                     Inl e \<Rightarrow> (w1, None) | Inr w2 \<Rightarrow> (w2, None))
                else
                  (case renderLoading w1 heading of
                     Inl e \<Rightarrow> (w1, None)
                   | Inr w2 \<Rightarrow>
                       (let c = \<lparr> c_api = api, c_url = u, c_lang = lang, c_heading = heading,
                                  c_jsonld = jsonld \<rparr>;
                            started = loadFaqsWithRetry w2 c
                        in (fst started, Some (c, snd started))))))"

definition connectedCallback ::
  "(string \<Rightarrow> jsval option) \<Rightarrow> widget \<Rightarrow> widget \<times> (cycle \<times> signal) option" where
  "connectedCallback parse w = initializeWidget parse w"

text \<open>
  \<^verbatim>\<open>attributeChangedCallback\<close> (lines 25--34); the \<^verbatim>\<open>data-config\<close> branch only sets CSS
  variables.
\<close>

definition attributeChangedCallback ::
  "(string \<Rightarrow> jsval option) \<Rightarrow> widget \<Rightarrow> string \<Rightarrow> widget \<times> (cycle \<times> signal) option" where
  "attributeChangedCallback parse w name =
     (if name = ''data-config'' then (w, None)
      else if shadowRoot w \<noteq> None then initializeWidget parse w
      else (w, None))"

definition observedAttributes :: "string list" where
  "observedAttributes =
     [''data-api'', ''data-url'', ''data-lang'', ''data-heading'', ''data-jsonld'', ''data-config'']"

section \<open>Several cycles on one widget\<close>

text \<open>
  The page runs one thing at a time: the element is connected, an attribute is set, a
  request of some cycle settles, a timer of some cycle fires, a question is clicked. All
  cycles started so far are kept, numbered in the order they were started, each with
  the point it is suspended at or with the way it ended. An event for a cycle that is
  not waiting for it does nothing.
\<close>

record world =
  element :: widget
  cycles :: "(cycle \<times> signal) list"

datatype event =
    Connected
  | AttributeSet string string
  | FetchSettled nat fetch_outcome
  | TimerFired nat
  | Clicked int

definition started :: "(cycle \<times> signal) list \<Rightarrow> widget \<times> (cycle \<times> signal) option \<Rightarrow> world" where
  "started cs r = \<lparr> element = fst r, cycles = cs @ (case snd r of None \<Rightarrow> [] | Some t \<Rightarrow> [t]) \<rparr>"

definition resumed :: "world \<Rightarrow> nat \<Rightarrow> cycle \<Rightarrow> widget \<times> signal \<Rightarrow> world" where
  "resumed wd k c r = \<lparr> element = fst r, cycles = (cycles wd)[k := (c, snd r)] \<rparr>"

fun deliver :: "(string \<Rightarrow> jsval option) \<Rightarrow> world \<Rightarrow> event \<Rightarrow> world" where
  "deliver parse wd Connected = started (cycles wd) (connectedCallback parse (element wd))"
| "deliver parse wd (AttributeSet name v) =
     (let w = (element wd)\<lparr>attributes := (attributes (element wd))(name \<mapsto> v)\<rparr> in
      if name \<in> set observedAttributes
      then started (cycles wd) (attributeChangedCallback parse w name)
      else wd\<lparr>element := w\<rparr>)"
| "deliver parse wd (FetchSettled k outcome) =
     (if k < length (cycles wd) then
        (case cycles wd ! k of
           (c, Await AtFetch) \<Rightarrow> resumed wd k c (resume_fetch (element wd) c outcome)
         | (c, Await AtRefresh) \<Rightarrow> resumed wd k c (resume_refresh (element wd) c outcome)
         | _ \<Rightarrow> wd)
      else wd)"
| "deliver parse wd (TimerFired k) =
     (if k < length (cycles wd) then
        (case cycles wd ! k of
           (c, Await AtDelay) \<Rightarrow> resumed wd k c (resume_delay (element wd) c)
         | _ \<Rightarrow> wd)
      else wd)"
| "deliver parse wd (Clicked i) =
     (if 0 \<le> i \<and> i < int (item_count (element wd))
      then wd\<lparr>element := fst (toggleItem (element wd) i)\<rparr>
      else wd)"

text \<open>The page before the element is connected, and a run of events.\<close>

definition page :: "(string \<Rightarrow> string option) \<Rightarrow> string option \<Rightarrow> world" where
  "page attrs script = \<lparr> element = FAQWidget attrs script, cycles = [] \<rparr>"

definition deliver_all :: "(string \<Rightarrow> jsval option) \<Rightarrow> world \<Rightarrow> event list \<Rightarrow> world" where
  "deliver_all parse wd evs = foldl (deliver parse) wd evs"

section \<open>Notions used to state the claims\<close>

text \<open>
  The selection agrees with the markup: either \<^verbatim>\<open>currentOpenIndex\<close> is \<open>-1\<close> and no item
  is open, or it is the index of a rendered item and exactly that item is open.
\<close>

definition selection_ok :: "widget \<Rightarrow> bool" where
  "selection_ok w \<longleftrightarrow>
     (currentOpenIndex w = - 1 \<and> open_items w = []) \<or>
     (0 \<le> currentOpenIndex w \<and> currentOpenIndex w < int (item_count w) \<and>
      open_items w = [nat (currentOpenIndex w)])"

text \<open>Every open item is the selected one (this survives a re-render and a raise).\<close>

definition only_selected_open :: "widget \<Rightarrow> bool" where
  "only_selected_open w \<longleftrightarrow> (\<forall>i \<in> set (open_items w). int i = currentOpenIndex w)"

definition opens :: "item list \<Rightarrow> nat set" where
  "opens items = {i. i < length items \<and> is_open (items ! i)}"

text \<open>
  A page whose widget has three inline entries and no attributes. The script text is
  abbreviated; \<open>parse_three\<close> is \<^verbatim>\<open>JSON.parse\<close> on it, giving the three entries.
\<close>

definition three_faqs :: jsval where
  "three_faqs =
     JArr [JObj [(''question'', JStr ''Q0''), (''answer'', JStr ''A0'')],
           JObj [(''question'', JStr ''Q1''), (''answer'', JStr ''A1'')],
           JObj [(''question'', JStr ''Q2''), (''answer'', JStr ''A2'')]]"

definition parse_three :: "string \<Rightarrow> jsval option" where
  "parse_three text = (if text = ''[three entries]'' then Some three_faqs else None)"

definition inline_page :: world where
  "inline_page = page Map.empty (Some ''[three entries]'')"

text \<open>
  The response shape of the specification (RemoteFaqResponse): an object whose
  \<^verbatim>\<open>faqs\<close> is an array, and whose \<^verbatim>\<open>faq_file\<close> and \<^verbatim>\<open>message\<close>, when present, are strings
  and whose \<^verbatim>\<open>just_crawled\<close> and \<^verbatim>\<open>faq_generated\<close>, when present, are booleans.
\<close>

fun typeof_boolean :: "jsval \<Rightarrow> bool" where
  "typeof_boolean (JBool b) = True"
| "typeof_boolean _ = False"

fun typeof_object :: "jsval \<Rightarrow> bool" where
  "typeof_object (JObj kvs) = True"
| "typeof_object _ = False"

definition optional :: "(jsval \<Rightarrow> bool) \<Rightarrow> jsval \<Rightarrow> bool" where
  "optional P v \<longleftrightarrow> v = JUndefined \<or> v = JNull \<or> P v"

definition valid_response :: "jsval \<Rightarrow> bool" where
  "valid_response r \<longleftrightarrow>
     typeof_object r \<and> isArray (get_prop r ''faqs'') \<and>
     optional typeof_string (get_prop r ''faq_file'') \<and>
     optional typeof_boolean (get_prop r ''just_crawled'') \<and>
     optional typeof_boolean (get_prop r ''faq_generated'') \<and>
     optional typeof_string (get_prop r ''message'')"

definition faq_list :: "jsval \<Rightarrow> jsval list" where
  "faq_list r = elements (get_prop r ''faqs'')"

text \<open>The four in-progress signals of the specification.\<close>

definition has_file_reference :: "jsval \<Rightarrow> bool" where
  "has_file_reference r = (case get_prop r ''faq_file'' of JStr s \<Rightarrow> s \<noteq> [] | _ \<Rightarrow> False)"

definition flag_set :: "jsval \<Rightarrow> string \<Rightarrow> bool" where
  "flag_set r k \<longleftrightarrow> get_prop r k = JBool True"

definition says_generating :: "jsval \<Rightarrow> bool" where
  "says_generating r =
     (case get_prop r ''message'' of JStr s \<Rightarrow> str_includes s ''generating'' | _ \<Rightarrow> False)"

definition in_progress :: "jsval \<Rightarrow> bool" where
  "in_progress r \<longleftrightarrow>
     has_file_reference r \<or> flag_set r ''just_crawled'' \<or> flag_set r ''faq_generated'' \<or>
     says_generating r"

text \<open>What \<^verbatim>\<open>render\<close> writes into the root.\<close>

definition content_of :: "string \<Rightarrow> jsval \<Rightarrow> view" where
  "content_of heading faqs =
     (if elements (validateAndLimitFaqs faqs) \<noteq> []
      then ContentView heading (buildAccordion (validateAndLimitFaqs faqs))
      else EmptyView heading ''No FAQs available'')"

text \<open>
  A page whose widget has a target URL and no inline data; \<open>no_json\<close> is \<^verbatim>\<open>JSON.parse\<close>
  where nothing parses. Connecting it starts the cycle \<open>example_cycle\<close>.
\<close>

definition no_json :: "string \<Rightarrow> jsval option" where
  "no_json text = None"

definition remote_page :: world where
  "remote_page = page [''data-url'' \<mapsto> ''https://example.com/''] None"

definition loading_widget :: widget where
  "loading_widget = element (deliver no_json remote_page Connected)"

definition example_cycle :: cycle where
  "example_cycle =
     \<lparr> c_api = ''http://localhost:8000'', c_url = ''https://example.com/'', c_lang = None,
       c_heading = ''Frequently Asked Questions'', c_jsonld = True \<rparr>"

text \<open>Responses of the specification's examples.\<close>

definition not_in_progress_response :: jsval where
  "not_in_progress_response = JObj [(''faqs'', JArr []), (''just_crawled'', JBool False)]"

definition just_crawled_response :: jsval where
  "just_crawled_response = JObj [(''faqs'', JArr []), (''just_crawled'', JBool True)]"

definition one_faq_response :: jsval where
  "one_faq_response =
     JObj [(''faqs'', JArr [JObj [(''question'', JStr ''Q''), (''answer'', JStr ''A'')]])]"

definition file_only_response :: jsval where
  "file_only_response = JObj [(''faqs'', JArr []), (''faq_file'', JStr ''faqs/index.md'')]"

definition terminal_env :: "nat \<Rightarrow> fetch_outcome" where
  "terminal_env n = Response 200 (Inr not_in_progress_response)"

text \<open>
  The three ways a request fails in claim C10, with the message of the error
  \<^verbatim>\<open>fetchFaqs\<close> then throws.
\<close>

fun failed_with :: "fetch_outcome \<Rightarrow> string \<Rightarrow> bool" where
  "failed_with (NetworkError m) cause = (cause = m)"
| "failed_with Aborted cause = (cause = ''Request timeout'')"
| "failed_with (Response status body) cause =
     (\<not> response_ok status \<and> cause = ''HTTP '' @ show_nat status)"

text \<open>Every attempt names a file, and every forced refresh times out.\<close>

fun refresh_timeout_env :: "nat \<Rightarrow> fetch_outcome" where
  "refresh_timeout_env n = (if even n then Response 200 (Inr file_only_response) else Aborted)"

text \<open>
  An attempt is a request without \<^verbatim>\<open>force_refresh=true\<close>; \<open>attempts\<close> counts the attempts
  in the log of a state.
\<close>

fun is_attempt :: "effect \<Rightarrow> bool" where
  "is_attempt (Fetch api params ms) = ((''force_refresh'', ''true'') \<notin> set params)"
| "is_attempt _ = False"

definition attempts :: "widget \<Rightarrow> nat" where
  "attempts w = length (filter is_attempt (trace w))"







text \<open>
  The widget of \<open>remote_page\<close> waiting for its third attempt after two in-progress
  replies, and waiting for the forced refresh of that attempt.
\<close>

definition third_attempt_widget :: widget where
  "third_attempt_widget =
     element (deliver_all no_json remote_page
       [Connected,
        FetchSettled 0 (Response 200 (Inr just_crawled_response)), TimerFired 0,
        FetchSettled 0 (Response 200 (Inr just_crawled_response)), TimerFired 0])"

definition third_refresh_widget :: widget where
  "third_refresh_widget =
     fst (resume_fetch third_attempt_widget example_cycle (Response 200 (Inr file_only_response)))"

text \<open>
  Pages whose inline payload has 65537 characters, one with a target URL and one
  without; \<open>parse_all\<close> is a parser that would accept any text.
\<close>

definition parse_all :: "string \<Rightarrow> jsval option" where
  "parse_all text = Some three_faqs"

definition oversized_text :: string where
  "oversized_text = replicate 65537 (CHR ''x'')"

definition oversized_remote :: widget where
  "oversized_remote = FAQWidget [''data-url'' \<mapsto> ''https://example.com/''] (Some oversized_text)"

definition oversized_local :: widget where
  "oversized_local = FAQWidget Map.empty (Some oversized_text)"

text \<open>The cycle \<^verbatim>\<open>initializeWidget\<close> starts for a widget with target URL \<open>u\<close>.\<close>

definition cycle_for :: "widget \<Rightarrow> string \<Rightarrow> cycle" where
  "cycle_for w u =
     \<lparr> c_api = attribute_or w ''data-api'' ''http://localhost:8000'', c_url = u,
       c_lang = attributes w ''data-lang'',
       c_heading = attribute_or w ''data-heading'' ''Frequently Asked Questions'',
       c_jsonld = (attributes w ''data-jsonld'' \<noteq> Some ''off'') \<rparr>"

text \<open>
  \<open>remote_page\<close> connected and then given another target URL: cycle 0 (for the first
  URL) is still waiting for its response when cycle 1 is started.
\<close>

definition superseded_world :: world where
  "superseded_world =
     deliver_all no_json remote_page
       [Connected, AttributeSet ''data-url'' ''https://example.com/other'']"




text \<open>
  The three-item page after item 1 was opened and the heading changed, and
  \<open>remote_page\<close> after three entries were shown, item 2 opened, the target URL replaced
  and one entry shown for the new URL.
\<close>

definition rerendered_widget :: widget where
  "rerendered_widget =
     element (deliver_all parse_three inline_page
       [Connected, Clicked 1, AttributeSet ''data-heading'' ''Help''])"

definition three_faq_response :: jsval where
  "three_faq_response = JObj [(''faqs'', three_faqs)]"

definition shrunk_widget :: widget where
  "shrunk_widget =
     element (deliver_all no_json remote_page
       [Connected,
        FetchSettled 0 (Response 200 (Inr three_faq_response)), Clicked 2,
        AttributeSet ''data-url'' ''https://example.com/other'',
        FetchSettled 1 (Response 200 (Inr one_faq_response))])"

text \<open>
  The size in bytes of a text in UTF-8: a code unit below 128 is one byte, one from 128
  to 255 is two. \<open>multibyte_text\<close> is a JSON array of one entry with a long note of
  40000 letters \<^verbatim>\<open>U+00E9\<close>; \<open>parse_multibyte\<close> is \<^verbatim>\<open>JSON.parse\<close> on that text.
\<close>

definition utf8_size :: "string \<Rightarrow> nat" where
  "utf8_size s = sum_list (map (\<lambda>c. if of_char c < (128::nat) then 1 else 2) s)"

definition quoted :: "string \<Rightarrow> string" where
  "quoted s = CHR 0x22 # s @ [CHR 0x22]"

definition long_note :: string where
  "long_note = replicate 40000 (CHR 0xE9)"

definition multibyte_text :: string where
  "multibyte_text =
     ''[{'' @ quoted ''question'' @ '':'' @ quoted ''Q'' @ '','' @
     quoted ''answer'' @ '':'' @ quoted ''A'' @ '','' @
     quoted ''note'' @ '':'' @ quoted long_note @ ''}]''"

definition multibyte_value :: jsval where
  "multibyte_value =
     JArr [JObj [(''question'', JStr ''Q''), (''answer'', JStr ''A''),
                 (''note'', JStr long_note)]]"

definition parse_multibyte :: "string \<Rightarrow> jsval option" where
  "parse_multibyte t = (if t = multibyte_text then Some multibyte_value else None)"

definition multibyte_widget :: widget where
  "multibyte_widget =
     FAQWidget [''data-url'' \<mapsto> ''https://example.com/''] (Some multibyte_text)"

section \<open>Properties of the sanitizer\<close>

lemma dropWhile_rev_dropWhile:
  "dropWhile P (rev (dropWhile P (rev (dropWhile P s)))) = rev (dropWhile P (rev (dropWhile P s)))"
proof -
  let ?u = "dropWhile P s"
  let ?t = "rev (dropWhile P (rev ?u))"
  have split: "?u = ?t @ rev (takeWhile P (rev ?u))"
    by (metis rev_append rev_rev_ident takeWhile_dropWhile_id)
  show ?thesis
  proof (cases "?t")
    case Nil
    show ?thesis unfolding Nil by simp
  next
    case (Cons x t')
    then have "?u \<noteq> []" using split by (metis Nil_is_append_conv list.distinct(1))
    then have "\<not> P (hd ?u)" by (rule hd_dropWhile)
    moreover have "hd ?u = x" using split Cons by (metis hd_append2 list.sel(1) list.distinct(1))
    ultimately show ?thesis using Cons by simp
  qed
qed

lemma trim_idem: "trim (trim s) = trim s"
  unfolding trim_def by (simp add: dropWhile_rev_dropWhile dropWhile_idem)

lemma get_prop_truthy: "typeof_string (get_prop e k) \<Longrightarrow> truthy e"
  by (cases e) auto

lemma pipeline_output_normal:
  assumes "y \<in> set (filter both_nonempty (map trim_fields (filter has_text_fields xs)))"
  shows "normal_faq y"
proof -
  from assms obtain x where x: "has_text_fields x" and y: "y = trim_fields x"
    and ne: "both_nonempty y" by auto
  from x obtain q a where "get_prop x ''question'' = JStr q" "get_prop x ''answer'' = JStr a"
    unfolding has_text_fields_def by (metis typeof_string.elims(2))
  with y ne show ?thesis
    by (auto simp: normal_faq_def trim_fields_def both_nonempty_def trim_idem)
qed

lemma pipeline_fused:
  "filter both_nonempty (map trim_fields (filter has_text_fields xs)) =
   map trimmed_entry (filter survives xs)"
proof (induction xs)
  case Nil
  show ?case by simp
next
  case (Cons e xs)
  show ?case
  proof (cases "has_text_fields e")
    case True
    then obtain q a where "get_prop e ''question'' = JStr q" "get_prop e ''answer'' = JStr a"
      unfolding has_text_fields_def by (metis typeof_string.elims(2))
    then show ?thesis using True Cons.IH
      by (simp add: survives_def trimmed_entry_def trim_fields_def both_nonempty_def)
  next
    case False
    then have "\<not> survives e"
      using get_prop_truthy [of e "''question''"]
      by (auto simp: survives_def has_text_fields_def split: jsval.splits)
    then show ?thesis using False Cons.IH by simp
  qed
qed

lemma pipeline_fixes_normal:
  assumes "\<forall>y \<in> set ys. normal_faq y"
  shows "filter both_nonempty (map trim_fields (filter has_text_fields ys)) = ys"
  using assms
proof (induction ys)
  case Nil
  show ?case by simp
next
  case (Cons y ys)
  then obtain q a where y: "y = JObj [(''question'', JStr q), (''answer'', JStr a)]"
     and ne: "q \<noteq> []" "a \<noteq> []" and fx: "trim q = q" "trim a = a"
    by (auto simp: normal_faq_def)
  have ih: "filter both_nonempty (map trim_fields (filter has_text_fields ys)) = ys"
    using Cons by simp
  have "has_text_fields y" using y by (simp add: has_text_fields_def)
  moreover have "trim_fields y = y" using y fx by (simp add: trim_fields_def)
  moreover have "both_nonempty y" using y ne by (simp add: both_nonempty_def)
  ultimately show ?case using ih by simp
qed

text \<open>
  Claim C4. The sanitizer returns the empty array on every input that is not an array.
  On an array it returns, in source order, the trimmed copies of exactly the entries
  whose question and answer are both strings and both non-empty after trimming, cut to
  the first 10. The specification's three-entry example yields its third entry only.
\<close>

theorem validateAndLimitFaqs_contract:
  "(\<not> isArray x \<longrightarrow> validateAndLimitFaqs x = JArr []) \<and>
   validateAndLimitFaqs (JArr xs) = JArr (take 10 (map trimmed_entry (filter survives xs))) \<and>
   validateAndLimitFaqs
     (JArr [JObj [(''question'', JStr '' ''), (''answer'', JStr ''x'')],
            JObj [(''question'', JStr ''Q''), (''answer'', JStr '' '')],
            JObj [(''question'', JStr ''Q2''), (''answer'', JStr ''A2'')]])
     = JArr [JObj [(''question'', JStr ''Q2''), (''answer'', JStr ''A2'')]]"
proof (intro conjI)
  show "\<not> isArray x \<longrightarrow> validateAndLimitFaqs x = JArr []"
    by (cases x) simp_all
  show "validateAndLimitFaqs (JArr xs) = JArr (take 10 (map trimmed_entry (filter survives xs)))"
    by (simp add: pipeline_fused maxFaqs_def)
  show "validateAndLimitFaqs
     (JArr [JObj [(''question'', JStr '' ''), (''answer'', JStr ''x'')],
            JObj [(''question'', JStr ''Q''), (''answer'', JStr '' '')],
            JObj [(''question'', JStr ''Q2''), (''answer'', JStr ''A2'')]])
     = JArr [JObj [(''question'', JStr ''Q2''), (''answer'', JStr ''A2'')]]"
    by (simp add: has_text_fields_def trim_fields_def both_nonempty_def trim_def
        js_whitespace_def maxFaqs_def)
qed

theorem validateAndLimitFaqs_contract_witness:
  "\<not> isArray (JObj [(''faqs'', JArr [])]) \<and>
   validateAndLimitFaqs (JObj [(''faqs'', JArr [])]) = JArr []"
  using validateAndLimitFaqs_contract [of "JObj [(''faqs'', JArr [])]" "[]"] by simp

text \<open>
  Claim C5. The sanitizer is a function of its argument alone, and sanitizing a
  sanitized collection changes nothing.
\<close>

theorem validateAndLimitFaqs_idempotent:
  "validateAndLimitFaqs (validateAndLimitFaqs x) = validateAndLimitFaqs x"
proof (cases x)
  case (JArr xs)
  let ?ys = "take maxFaqs (filter both_nonempty (map trim_fields (filter has_text_fields xs)))"
  have "\<forall>y \<in> set ?ys. normal_faq y"
    using pipeline_output_normal [of _ xs] by (meson in_set_takeD)
  then have "filter both_nonempty (map trim_fields (filter has_text_fields ?ys)) = ?ys"
    by (rule pipeline_fixes_normal)
  then show ?thesis using JArr by simp
qed simp_all

section \<open>Properties of the accordion\<close>

lemma set_open_items:
  "shadowRoot w = Some v \<Longrightarrow> set (open_items w) = opens (view_items v)"
  by (auto simp: open_items_def opens_def)

lemma closeItem_Inr:
  assumes "closeItem c items = Inr items'"
  shows "length items' = length items" and "opens items' = opens items - {nat c}"
    and "0 \<le> c" and "c < int (length items)"
  using assms
  by (auto simp: closeItem_def opens_def is_open_def nth_list_update split: if_splits)

lemma openItem_Inr:
  assumes "openItem k items = Inr items'"
  shows "length items' = length items" and "opens items' = insert (nat k) (opens items)"
    and "0 \<le> k" and "k < int (length items)"
  using assms
  by (auto simp: openItem_def opens_def is_open_def nth_list_update split: if_splits)

lemma view_items_set_items:
  "length items' = length (view_items v) \<Longrightarrow> view_items (set_items v items') = items'"
  by (cases v) auto

lemma toggleItem_keeps_only_selected:
  assumes "only_selected_open w"
  shows "only_selected_open (fst (toggleItem w index))"
proof (cases "shadowRoot w")
  case None
  then show ?thesis using assms by (simp add: toggleItem_def)
next
  case (Some v)
  have J: "\<forall>i \<in> opens (view_items v). int i = currentOpenIndex w"
    using assms set_open_items [OF Some] by (simp add: only_selected_open_def)
  show ?thesis
  proof (cases "currentOpenIndex w = index")
    case True
    show ?thesis
    proof (cases "closeItem index (view_items v)")
      case (Inl e)
      then show ?thesis using assms Some True by (simp add: toggleItem_def)
    next
      case (Inr closed)
      have "opens closed = {}"
        using closeItem_Inr [OF Inr] J True by auto
      moreover have "view_items (set_items v closed) = closed"
        using closeItem_Inr(1) [OF Inr] by (simp add: view_items_set_items)
      ultimately show ?thesis using Some True Inr
        by (simp add: toggleItem_def only_selected_open_def open_items_def opens_def)
    qed
  next
    case False
    let ?r = "if currentOpenIndex w \<ge> 0 then closeItem (currentOpenIndex w) (view_items v)
              else Inr (view_items v)"
    show ?thesis
    proof (cases ?r)
      case (Inl e)
      then show ?thesis using assms Some False by (simp add: toggleItem_def)
    next
      case (Inr closed)
      have len: "length closed = length (view_items v)"
        using Inr closeItem_Inr(1) by (auto split: if_splits)
      have empty: "opens closed = {}"
      proof (cases "currentOpenIndex w \<ge> 0")
        case True
        then have "closeItem (currentOpenIndex w) (view_items v) = Inr closed" using Inr by simp
        from closeItem_Inr [OF this] J show ?thesis by auto
      next
        case False
        then have "closed = view_items v" using Inr by simp
        with J False show ?thesis by auto
      qed
      have vi: "\<And>xs. length xs = length closed \<Longrightarrow> view_items (set_items v xs) = xs"
        using len by (simp add: view_items_set_items)
      show ?thesis
      proof (cases "openItem index closed")
        case (Inl e)
        then show ?thesis using Some False Inr empty vi [of closed]
          by (simp add: toggleItem_def only_selected_open_def open_items_def opens_def)
      next
        case (Inr opened)
        have "opens opened = {nat index}" and "0 \<le> index" and "length opened = length closed"
          using openItem_Inr [OF Inr] empty by auto
        then show ?thesis using Some False \<open>?r = Inr closed\<close> Inr vi [of opened]
          by (auto simp: toggleItem_def only_selected_open_def open_items_def opens_def)
      qed
    qed
  qed
qed

lemma only_selected_toggle_all:
  "only_selected_open w \<Longrightarrow> only_selected_open (toggle_all w is)"
  by (induction "is" arbitrary: w) (simp_all add: toggleItem_keeps_only_selected)

lemma only_selected_length:
  assumes "only_selected_open w"
  shows "length (open_items w) \<le> 1"
proof -
  have d: "distinct (open_items w)"
    by (simp add: open_items_def split: option.splits)
  have "set (open_items w) \<subseteq> {nat (currentOpenIndex w)}"
    using assms by (auto simp: only_selected_open_def)
  then have "card (set (open_items w)) \<le> 1"
    by (metis card_mono finite.emptyI finite.insertI card.empty card_insert_disjoint
        empty_iff One_nat_def)
  then show ?thesis using distinct_card [OF d] by simp
qed

lemma distinct_set_single: "distinct xs \<Longrightarrow> set xs = {k} \<Longrightarrow> xs = [k]"
proof -
  assume d: "distinct xs" and s: "set xs = {k}"
  then have "length xs = 1" using distinct_card [OF d] by simp
  then obtain y where "xs = [y]" by (cases xs) auto
  with s show ?thesis by simp
qed

lemma open_items_eq:
  assumes "shadowRoot w = Some v"
  shows "opens (view_items v) = {} \<Longrightarrow> open_items w = []"
    and "opens (view_items v) = {k} \<Longrightarrow> open_items w = [k]"
proof -
  have d: "distinct (open_items w)" using assms by (simp add: open_items_def)
  show "opens (view_items v) = {} \<Longrightarrow> open_items w = []"
    using set_open_items [OF assms] by simp
  show "opens (view_items v) = {k} \<Longrightarrow> open_items w = [k]"
    using set_open_items [OF assms] d by (simp add: distinct_set_single)
qed

lemma toggleItem_in_range:
  assumes ok: "selection_ok w" and lo: "0 \<le> index" and hi: "index < int (item_count w)"
  shows "snd (toggleItem w index) = None"
    and "item_count (fst (toggleItem w index)) = item_count w"
    and "selection_ok (fst (toggleItem w index))"
    and "currentOpenIndex w = index \<Longrightarrow>
           currentOpenIndex (fst (toggleItem w index)) = - 1 \<and>
           open_items (fst (toggleItem w index)) = []"
    and "currentOpenIndex w \<noteq> index \<Longrightarrow>
           currentOpenIndex (fst (toggleItem w index)) = index \<and>
           open_items (fst (toggleItem w index)) = [nat index]"
proof -
  from lo hi obtain v where Some: "shadowRoot w = Some v"
    by (cases "shadowRoot w") (auto simp: item_count_def)
  let ?items = "view_items v"
  have n: "item_count w = length ?items" using Some by (simp add: item_count_def)
  have J: "\<forall>i \<in> opens ?items. int i = currentOpenIndex w"
  proof
    fix i
    assume "i \<in> opens ?items"
    then have "i \<in> set (open_items w)" using set_open_items [OF Some] by simp
    then show "int i = currentOpenIndex w" using ok by (auto simp: selection_ok_def)
  qed
  have valid: "currentOpenIndex w = - 1 \<or>
      (0 \<le> currentOpenIndex w \<and> currentOpenIndex w < int (length ?items))"
    using ok n by (auto simp: selection_ok_def)
  let ?w' = "fst (toggleItem w index)"
  have main: "snd (toggleItem w index) = None \<and> item_count ?w' = item_count w \<and>
     (\<exists>v'. shadowRoot ?w' = Some v' \<and>
        (if currentOpenIndex w = index
         then currentOpenIndex ?w' = - 1 \<and> opens (view_items v') = {}
         else currentOpenIndex ?w' = index \<and> opens (view_items v') = {nat index}))"
  proof (cases "currentOpenIndex w = index")
    case True
    obtain closed where c: "closeItem index ?items = Inr closed"
      using lo hi n by (auto simp: closeItem_def)
    have "opens closed = {}" using closeItem_Inr [OF c] J True by auto
    moreover have "view_items (set_items v closed) = closed"
      using closeItem_Inr(1) [OF c] by (simp add: view_items_set_items)
    ultimately show ?thesis using Some True c closeItem_Inr(1) [OF c]
      by (simp add: toggleItem_def item_count_def)
  next
    case False
    let ?r = "if currentOpenIndex w \<ge> 0 then closeItem (currentOpenIndex w) ?items
              else Inr ?items"
    obtain closed where r: "?r = Inr closed"
      using valid by (auto simp: closeItem_def)
    have len: "length closed = length ?items"
      using r closeItem_Inr(1) by (auto split: if_splits)
    have empty: "opens closed = {}"
    proof (cases "currentOpenIndex w \<ge> 0")
      case True
      then have "closeItem (currentOpenIndex w) ?items = Inr closed" using r by simp
      from closeItem_Inr [OF this] J show ?thesis by auto
    next
      case False
      then have "closed = ?items" using r by simp
      with J False show ?thesis by auto
    qed
    obtain opened where o: "openItem index closed = Inr opened"
      using lo hi n len by (auto simp: openItem_def)
    have "opens opened = {nat index}" and l2: "length opened = length ?items"
      using openItem_Inr [OF o] empty len by auto
    moreover have "view_items (set_items v opened) = opened"
      using l2 by (simp add: view_items_set_items)
    ultimately show ?thesis using Some False r o
      by (simp add: toggleItem_def item_count_def)
  qed
  then obtain v' where v': "shadowRoot ?w' = Some v'"
    and sel: "if currentOpenIndex w = index
              then currentOpenIndex ?w' = - 1 \<and> opens (view_items v') = {}
              else currentOpenIndex ?w' = index \<and> opens (view_items v') = {nat index}"
    by blast
  show "snd (toggleItem w index) = None" using main by simp
  show cnt: "item_count ?w' = item_count w" using main by simp
  show same: "currentOpenIndex w = index \<Longrightarrow>
          currentOpenIndex ?w' = - 1 \<and> open_items ?w' = []"
    using sel open_items_eq(1) [OF v'] by simp
  show other: "currentOpenIndex w \<noteq> index \<Longrightarrow>
          currentOpenIndex ?w' = index \<and> open_items ?w' = [nat index]"
    using sel open_items_eq(2) [OF v'] by simp
  show "selection_ok ?w'"
  proof (cases "currentOpenIndex w = index")
    case True
    then show ?thesis using same by (simp add: selection_ok_def)
  next
    case False
    then show ?thesis using other cnt lo hi by (simp add: selection_ok_def)
  qed
qed

lemma render_selection:
  assumes "render w faqs heading = Inr w'"
  shows "open_items w' = []" and "currentOpenIndex w' = currentOpenIndex w"
  using assms
  by (auto simp: render_def Let_def record_call_def open_items_def buildAccordion_def is_open_def
      filter_empty_conv split: option.splits if_splits)

lemmas page_eval =
  inline_page_def page_def FAQWidget_def connectedCallback_def initializeWidget_def
  getInlineJson_def parse_three_def three_faqs_def attribute_or_def started_def render_def
  maxInlineSize_def maxInlineItems_def maxFaqs_def has_text_fields_def trim_fields_def
  both_nonempty_def trim_def js_whitespace_def buildAccordion_def record_call_def
  injectJsonLd_def Let_def deliver_all_def item_count_def toggleItem_def closeItem_def
  openItem_def open_items_def is_open_def attributeChangedCallback_def observedAttributes_def

text \<open>
  What holds of the accordion. After any render, whatever \<^verbatim>\<open>toggleItem\<close> calls follow, at
  most one item is open. On a widget whose selection agrees with its markup,
  \<^verbatim>\<open>toggleItem(index)\<close> for a rendered item raises nothing and keeps that agreement; when
  \<open>index\<close> is the open item it leaves no item open and the selection at none, otherwise it
  leaves exactly \<open>index\<close> open and selected. A render on a widget with no selection gives
  such a widget. On the three-item page, clicking item 2 and then item 0 leaves exactly
  item 0 open.
\<close>

lemma toggleItem_when_selection_agrees:
  "(render w faqs heading = Inr w0 \<longrightarrow> length (open_items (toggle_all w0 is)) \<le> 1) \<and>
   (currentOpenIndex w = - 1 \<and> render w faqs heading = Inr w0 \<longrightarrow> selection_ok w0) \<and>
   (selection_ok w1 \<and> 0 \<le> index \<and> index < int (item_count w1) \<longrightarrow>
      snd (toggleItem w1 index) = None \<and>
      selection_ok (fst (toggleItem w1 index)) \<and>
      item_count (fst (toggleItem w1 index)) = item_count w1 \<and>
      (if currentOpenIndex w1 = index
       then currentOpenIndex (fst (toggleItem w1 index)) = - 1 \<and>
            open_items (fst (toggleItem w1 index)) = []
       else currentOpenIndex (fst (toggleItem w1 index)) = index \<and>
            open_items (fst (toggleItem w1 index)) = [nat index])) \<and>
   open_items (element (deliver_all parse_three inline_page [Connected, Clicked 2, Clicked 0]))
     = [0]"
proof (intro conjI impI)
  assume r: "render w faqs heading = Inr w0"
  have "only_selected_open w0"
    using render_selection(1) [OF r] by (simp add: only_selected_open_def)
  then show "length (open_items (toggle_all w0 is)) \<le> 1"
    by (intro only_selected_length only_selected_toggle_all)
next
  assume "currentOpenIndex w = - 1 \<and> render w faqs heading = Inr w0"
  then show "selection_ok w0"
    using render_selection [of w faqs heading w0] by (simp add: selection_ok_def)
next
  assume a: "selection_ok w1 \<and> 0 \<le> index \<and> index < int (item_count w1)"
  then have ok: "selection_ok w1" and lo: "0 \<le> index" and hi: "index < int (item_count w1)"
    by simp_all
  show "snd (toggleItem w1 index) = None" by (rule toggleItem_in_range(1) [OF ok lo hi])
  show "selection_ok (fst (toggleItem w1 index))" by (rule toggleItem_in_range(3) [OF ok lo hi])
  show "item_count (fst (toggleItem w1 index)) = item_count w1"
    by (rule toggleItem_in_range(2) [OF ok lo hi])
  show "if currentOpenIndex w1 = index
        then currentOpenIndex (fst (toggleItem w1 index)) = - 1 \<and>
             open_items (fst (toggleItem w1 index)) = []
        else currentOpenIndex (fst (toggleItem w1 index)) = index \<and>
             open_items (fst (toggleItem w1 index)) = [nat index]"
    using toggleItem_in_range(4,5) [OF ok lo hi] by simp
next
  show "open_items (element (deliver_all parse_three inline_page [Connected, Clicked 2, Clicked 0]))
     = [0]"
    by (simp add: page_eval)
qed

text \<open>
  Claim C6 fails on the code: \<^verbatim>\<open>render\<close> does not write \<^verbatim>\<open>currentOpenIndex\<close>. On the
  three-item page, item 1 is opened and the heading attribute is then changed: the new
  markup has every item closed while \<^verbatim>\<open>currentOpenIndex\<close> is still 1, and the next click
  on item 1 closes it again instead of opening it.
\<close>

theorem render_keeps_currentOpenIndex:
  "currentOpenIndex (element (deliver_all parse_three inline_page
      [Connected, Clicked 1, AttributeSet ''data-heading'' ''Help''])) = 1 \<and>
   open_items (element (deliver_all parse_three inline_page
      [Connected, Clicked 1, AttributeSet ''data-heading'' ''Help''])) = [] \<and>
   open_items (element (deliver_all parse_three inline_page
      [Connected, Clicked 1, AttributeSet ''data-heading'' ''Help'', Clicked 1])) = []"
  by (simp add: page_eval)

section \<open>Properties of the retry loop\<close>

lemma str_includes_iff: "str_includes s p \<longleftrightarrow> (\<exists>pre suf. s = pre @ p @ suf)"
proof (induction s)
  case Nil
  show ?case by auto
next
  case (Cons c cs)
  have "take (length p) (c # cs) = p \<longleftrightarrow> (\<exists>suf. c # cs = p @ suf)"
    by (metis append_eq_conv_conj append_take_drop_id)
  moreover have "(\<exists>pre suf. c # cs = pre @ p @ suf) \<longleftrightarrow>
      (\<exists>suf. c # cs = p @ suf) \<or> (\<exists>pre suf. cs = pre @ p @ suf)"
  proof
    assume "\<exists>pre suf. c # cs = pre @ p @ suf"
    then obtain pre suf where e: "c # cs = pre @ p @ suf" by blast
    show "(\<exists>suf. c # cs = p @ suf) \<or> (\<exists>pre suf. cs = pre @ p @ suf)"
    proof (cases pre)
      case Nil
      with e show ?thesis by auto
    next
      case (Cons a pre')
      with e have "cs = pre' @ p @ suf" by simp
      then show ?thesis by blast
    qed
  next
    assume "(\<exists>suf. c # cs = p @ suf) \<or> (\<exists>pre suf. cs = pre @ p @ suf)"
    then show "\<exists>pre suf. c # cs = pre @ p @ suf"
    proof
      assume "\<exists>suf. c # cs = p @ suf"
      then show ?thesis by (metis append_Nil)
    next
      assume "\<exists>pre suf. cs = pre @ p @ suf"
      then obtain pre suf where "cs = pre @ p @ suf" by blast
      then have "c # cs = (c # pre) @ p @ suf" by simp
      then show ?thesis by blast
    qed
  qed
  ultimately show ?case using Cons.IH by simp
qed

lemma valid_has_faqs: "valid_response r \<Longrightarrow> has_faqs r = Some (faq_list r \<noteq> [])"
  by (cases r; cases "get_prop r ''faqs''")
     (auto simp: valid_response_def has_faqs_def faq_list_def)

lemma truthy_optional_string:
  "optional typeof_string v \<Longrightarrow> truthy v \<longleftrightarrow> (case v of JStr s \<Rightarrow> s \<noteq> [] | _ \<Rightarrow> False)"
  by (cases v) (auto simp: optional_def)

lemma truthy_optional_boolean: "optional typeof_boolean v \<Longrightarrow> truthy v \<longleftrightarrow> v = JBool True"
  by (cases v) (auto simp: optional_def)

lemma includes_optional_string:
  "optional typeof_string v \<Longrightarrow> truthy v \<Longrightarrow>
   includes_generating v = Inr (case v of JStr s \<Rightarrow> str_includes s ''generating'' | _ \<Rightarrow> False)"
  by (cases v) (auto simp: optional_def)

lemma valid_truthy: "valid_response r \<Longrightarrow> truthy r"
  by (cases r) (auto simp: valid_response_def)

lemma valid_shouldRetry: "valid_response r \<Longrightarrow> shouldRetry r = Inr (in_progress r)"
proof -
  assume v: "valid_response r"
  have t: "truthy r" using v by (rule valid_truthy)
  have f: "truthy (get_prop r ''faq_file'') = has_file_reference r"
    using v by (simp add: valid_response_def truthy_optional_string has_file_reference_def)
  have j: "truthy (get_prop r ''just_crawled'') = flag_set r ''just_crawled''"
    using v by (simp add: valid_response_def truthy_optional_boolean flag_set_def)
  have g: "truthy (get_prop r ''faq_generated'') = flag_set r ''faq_generated''"
    using v by (simp add: valid_response_def truthy_optional_boolean flag_set_def)
  have m: "optional typeof_string (get_prop r ''message'')"
    using v by (simp add: valid_response_def)
  have m1: "\<not> truthy (get_prop r ''message'') \<Longrightarrow> \<not> says_generating r"
    using m by (cases "get_prop r ''message''") (auto simp: says_generating_def optional_def)
  have m2: "truthy (get_prop r ''message'') \<Longrightarrow>
      includes_generating (get_prop r ''message'') = Inr (says_generating r)"
    using includes_optional_string [OF m] by (simp add: says_generating_def)
  show ?thesis
    unfolding shouldRetry_def in_progress_def using t f j g m1 m2 by auto
qed

lemma valid_wants_refresh:
  "valid_response r \<Longrightarrow> faq_list r = [] \<Longrightarrow> wants_refresh r = has_file_reference r"
  unfolding valid_response_def wants_refresh_def has_file_reference_def faq_list_def optional_def
  by (cases "get_prop r ''faqs''"; cases "get_prop r ''faq_file''") auto

lemma render_attached:
  "shadowRoot w = Some v \<Longrightarrow>
   render w faqs heading =
     Inr (record_call (Render faqs heading) (w\<lparr>shadowRoot := Some (content_of heading faqs)\<rparr>))"
  by (simp add: render_def content_of_def Let_def)

lemma renderError_attached:
  "shadowRoot w = Some v \<Longrightarrow>
   renderError w msg = Inr (record_call (RenderError msg) (w\<lparr>shadowRoot := Some (ErrorView msg)\<rparr>))"
  by (simp add: renderError_def)


lemma fetchFaqs_result_ok:
  "response_ok status \<Longrightarrow> fetchFaqs_result (Response status body) = body"
  by simp

lemma resume_fetch_terminal:
  assumes "shadowRoot w = Some v" "response_ok status" "valid_response r" "faq_list r = []"
    "\<not> in_progress r"
  shows "resume_fetch w c (Response status (Inr r)) =
     (record_call (RenderError ''No FAQs available for this page'')
        (w\<lparr>shadowRoot := Some (ErrorView ''No FAQs available for this page'')\<rparr>), Return)"
  using assms
  by (simp add: resume_fetch_def after_fetch_def valid_has_faqs valid_shouldRetry finish_def
      renderError_attached)

text \<open>
  Claim C2. A successful response of the specified shape with an empty FAQ list and none
  of the four in-progress signals ends the cycle at once: the error markup
  ``No FAQs available for this page'' is shown, the attempt counter is unchanged, the only
  call made is that \<^verbatim>\<open>renderError\<close> (no request, no delay, no forced refresh), and the
  run consumes no further response.
\<close>

theorem empty_terminal_response:
  "shadowRoot w \<noteq> None \<and> response_ok status \<and> valid_response r \<and> faq_list r = [] \<and>
   \<not> in_progress r \<and> env n = Response status (Inr r) \<longrightarrow>
     snd (resume_fetch w c (env n)) = Return \<and>
     shadowRoot (fst (resume_fetch w c (env n))) = Some (ErrorView ''No FAQs available for this page'') \<and>
     retryCount (fst (resume_fetch w c (env n))) = retryCount w \<and>
     trace (fst (resume_fetch w c (env n))) = trace w @ [RenderError ''No FAQs available for this page''] \<and>
     run env n c (w, Await AtFetch) = (resume_fetch w c (env n), Suc n)"
proof (intro impI)
  assume a: "shadowRoot w \<noteq> None \<and> response_ok status \<and> valid_response r \<and> faq_list r = [] \<and>
   \<not> in_progress r \<and> env n = Response status (Inr r)"
  then obtain v where v: "shadowRoot w = Some v" by auto
  have e: "resume_fetch w c (env n) =
     (record_call (RenderError ''No FAQs available for this page'')
        (w\<lparr>shadowRoot := Some (ErrorView ''No FAQs available for this page'')\<rparr>), Return)"
    using a resume_fetch_terminal [OF v, of status r c] by simp
  show "snd (resume_fetch w c (env n)) = Return \<and>
     shadowRoot (fst (resume_fetch w c (env n))) = Some (ErrorView ''No FAQs available for this page'') \<and>
     retryCount (fst (resume_fetch w c (env n))) = retryCount w \<and>
     trace (fst (resume_fetch w c (env n))) = trace w @ [RenderError ''No FAQs available for this page''] \<and>
     run env n c (w, Await AtFetch) = (resume_fetch w c (env n), Suc n)"
    by (simp add: e record_call_def)
qed

lemmas remote_eval =
  remote_page_def loading_widget_def page_def FAQWidget_def connectedCallback_def
  initializeWidget_def getInlineJson_def attribute_or_def started_def renderLoading_def
  record_call_def loadFaqsWithRetry_def loop_head_def fetchFaqs_def query_params_def
  maxRetries_def requestTimeout_def Let_def example_cycle_def

lemma loading_cycles:
  "cycles (deliver no_json remote_page Connected) = [(example_cycle, Await AtFetch)]"
  by (simp add: remote_eval)

lemma loading_root: "shadowRoot loading_widget = Some (LoadingView ''Frequently Asked Questions'' ''Loading FAQs...'')"
  by (simp add: remote_eval)

lemma loading_trace: "trace loading_widget = [RenderLoading ''Frequently Asked Questions'', Fetch ''http://localhost:8000'' [(''url'', ''https://example.com/'')] 8000]"
  by (simp add: remote_eval)

lemma valid_examples:
  "valid_response not_in_progress_response" "valid_response just_crawled_response"
  "valid_response one_faq_response" "valid_response file_only_response"
  by (simp_all add: valid_response_def optional_def not_in_progress_response_def
      just_crawled_response_def one_faq_response_def file_only_response_def)

theorem empty_terminal_response_witness:
  "shadowRoot loading_widget \<noteq> None \<and> response_ok 200 \<and> valid_response not_in_progress_response \<and>
   faq_list not_in_progress_response = [] \<and> \<not> in_progress not_in_progress_response \<and>
   terminal_env 0 = Response 200 (Inr not_in_progress_response) \<and>
   shadowRoot (fst (fst (run terminal_env 0 example_cycle (loading_widget, Await AtFetch))))
     = Some (ErrorView ''No FAQs available for this page'') \<and>
   snd (run terminal_env 0 example_cycle (loading_widget, Await AtFetch)) = 1"
proof -
  have h: "shadowRoot loading_widget \<noteq> None \<and> response_ok 200 \<and>
      valid_response not_in_progress_response \<and>
      faq_list not_in_progress_response = [] \<and> \<not> in_progress not_in_progress_response \<and>
      terminal_env 0 = Response 200 (Inr not_in_progress_response)"
    by (simp add: loading_root valid_examples response_ok_def terminal_env_def)
       (simp add: not_in_progress_response_def faq_list_def in_progress_def has_file_reference_def
          flag_set_def says_generating_def)
  from empty_terminal_response [of loading_widget 200 not_in_progress_response terminal_env 0
      example_cycle] h
  show ?thesis by simp
qed

lemma show_faqs_attached:
  assumes "shadowRoot w = Some v"
  shows "snd (show_faqs w c faqs) = Return"
    and "shadowRoot (fst (show_faqs w c faqs)) = Some (content_of (c_heading c) faqs)"
    and "retryCount (fst (show_faqs w c faqs)) = retryCount w"
    and "trace (fst (show_faqs w c faqs)) = trace w @ [Render faqs (c_heading c)]"
  using assms
  by (simp_all add: show_faqs_def render_attached record_call_def injectJsonLd_def Let_def)

lemma force_refresh_param:
  "(''force_refresh'', ''true'') \<in> set (query_params url lang forceRefresh) \<longleftrightarrow> forceRefresh"
  by (auto simp: query_params_def split: option.splits)

text \<open>
  Claim C3. When a successful response of the specified shape has an empty FAQ list and
  names a file, the only thing the widget does before suspending is to issue one
  request with \<^verbatim>\<open>force_refresh=true\<close>: the counter is unchanged and no delay is started.
  A request carries that parameter exactly when it is the forced refresh; the request of
  a normal attempt does not. When the forced refresh returns a non-empty list, the cycle
  returns with that list rendered, the counter still unchanged.
\<close>

theorem forced_refresh_on_file_reference:
  "(response_ok status \<and> valid_response r \<and> faq_list r = [] \<and> has_file_reference r \<longrightarrow>
      resume_fetch w c (Response status (Inr r)) =
        (w\<lparr>trace := trace w @
              [Fetch (c_api c) (query_params (c_url c) (c_lang c) True) requestTimeout]\<rparr>,
         Await AtRefresh)) \<and>
   ((''force_refresh'', ''true'') \<in> set (query_params url lang forceRefresh) \<longleftrightarrow> forceRefresh) \<and>
   (retryCount w < maxRetries \<longrightarrow>
      loop_head w c =
        (w\<lparr>trace := trace w @
              [Fetch (c_api c) (query_params (c_url c) (c_lang c) False) requestTimeout]\<rparr>,
         Await AtFetch)) \<and>
   (shadowRoot w \<noteq> None \<and> response_ok status' \<and> valid_response r' \<and> faq_list r' \<noteq> [] \<longrightarrow>
      snd (resume_refresh w c (Response status' (Inr r'))) = Return \<and>
      shadowRoot (fst (resume_refresh w c (Response status' (Inr r')))) =
        Some (content_of (c_heading c) (get_prop r' ''faqs'')) \<and>
      retryCount (fst (resume_refresh w c (Response status' (Inr r')))) = retryCount w \<and>
      trace (fst (resume_refresh w c (Response status' (Inr r')))) =
        trace w @ [Render (get_prop r' ''faqs'') (c_heading c)])"
proof (intro conjI impI)
  assume "response_ok status \<and> valid_response r \<and> faq_list r = [] \<and> has_file_reference r"
  then show "resume_fetch w c (Response status (Inr r)) =
        (w\<lparr>trace := trace w @
              [Fetch (c_api c) (query_params (c_url c) (c_lang c) True) requestTimeout]\<rparr>,
         Await AtRefresh)"
    by (simp add: resume_fetch_def after_fetch_def valid_has_faqs valid_shouldRetry
        valid_wants_refresh in_progress_def fetchFaqs_def record_call_def)
next
  show "(''force_refresh'', ''true'') \<in> set (query_params url lang forceRefresh) \<longleftrightarrow> forceRefresh"
    by (rule force_refresh_param)
next
  assume "retryCount w < maxRetries"
  then show "loop_head w c =
        (w\<lparr>trace := trace w @
              [Fetch (c_api c) (query_params (c_url c) (c_lang c) False) requestTimeout]\<rparr>,
         Await AtFetch)"
    by (simp add: loop_head_def fetchFaqs_def record_call_def)
next
  assume a: "shadowRoot w \<noteq> None \<and> response_ok status' \<and> valid_response r' \<and> faq_list r' \<noteq> []"
  then obtain v where v: "shadowRoot w = Some v" by auto
  have e: "resume_refresh w c (Response status' (Inr r')) = show_faqs w c (get_prop r' ''faqs'')"
    using a show_faqs_attached(1) [OF v, of c "get_prop r' ''faqs''"]
    by (cases "show_faqs w c (get_prop r' ''faqs'')")
       (simp add: resume_refresh_def after_refresh_def valid_has_faqs)
  show "snd (resume_refresh w c (Response status' (Inr r'))) = Return"
    "shadowRoot (fst (resume_refresh w c (Response status' (Inr r')))) =
        Some (content_of (c_heading c) (get_prop r' ''faqs''))"
    "retryCount (fst (resume_refresh w c (Response status' (Inr r')))) = retryCount w"
    "trace (fst (resume_refresh w c (Response status' (Inr r')))) =
        trace w @ [Render (get_prop r' ''faqs'') (c_heading c)]"
    unfolding e by (rule show_faqs_attached [OF v])+
qed

lemma failed_with_result: "failed_with outcome cause \<Longrightarrow> fetchFaqs_result outcome = Inl (JsError cause)"
  by (cases outcome) auto

lemma catch_block_more:
  "retryCount w + 1 < maxRetries \<Longrightarrow>
   catch_block w e = (w\<lparr>retryCount := retryCount w + 1, trace := trace w @ [Delay retryDelay]\<rparr>, Await AtDelay)"
  by (simp add: catch_block_def Let_def delay_def record_call_def)

lemma catch_block_last:
  "shadowRoot w = Some v \<Longrightarrow> maxRetries \<le> retryCount w + 1 \<Longrightarrow>
   catch_block w e =
     (w\<lparr>retryCount := retryCount w + 1,
        shadowRoot := Some (ErrorView (''Failed to load FAQs: '' @ message e)),
        trace := trace w @ [RenderError (''Failed to load FAQs: '' @ message e)]\<rparr>, Return)"
  by (simp add: catch_block_def Let_def finish_def renderError_attached record_call_def)

lemmas loop_eval =
  resume_fetch_def resume_refresh_def resume_delay_def after_fetch_def after_refresh_def
  has_faqs_def shouldRetry_def wants_refresh_def count_attempt_def catch_block_def loop_head_def
  show_faqs_def finish_def fetchFaqs_def query_params_def delay_def record_call_def
  render_def renderError_def renderStatus_def injectJsonLd_def retry_message_def
  maxRetries_def retryDelay_def requestTimeout_def maxFaqs_def Let_def
  has_text_fields_def trim_fields_def both_nonempty_def trim_def js_whitespace_def
  buildAccordion_def response_ok_def

text \<open>
  Claim C10. A forced refresh that fails by a transport error, a non-success status or
  the abort timer is handled by the \<^verbatim>\<open>catch\<close> block: the attempt counter goes up by one;
  while attempts remain the backoff is started, and when that was the last attempt the
  error markup shows ``Failed to load FAQs: '' followed by the cause. With every forced
  refresh timing out, the cycle ends after three attempts and six requests with
  ``Failed to load FAQs: Request timeout''.
\<close>

theorem refresh_failure_consumes_attempt:
  "(failed_with outcome cause \<and> retryCount w + 1 < maxRetries \<longrightarrow>
      resume_refresh w c outcome =
        (w\<lparr>retryCount := retryCount w + 1, trace := trace w @ [Delay retryDelay]\<rparr>,
         Await AtDelay)) \<and>
   (failed_with outcome cause \<and> shadowRoot w \<noteq> None \<and> maxRetries \<le> retryCount w + 1 \<longrightarrow>
      resume_refresh w c outcome =
        (w\<lparr>retryCount := retryCount w + 1,
           shadowRoot := Some (ErrorView (''Failed to load FAQs: '' @ cause)),
           trace := trace w @ [RenderError (''Failed to load FAQs: '' @ cause)]\<rparr>,
         Return)) \<and>
   shadowRoot (fst (fst (run refresh_timeout_env 0 example_cycle (loading_widget, Await AtFetch))))
     = Some (ErrorView ''Failed to load FAQs: Request timeout'') \<and>
   retryCount (fst (fst (run refresh_timeout_env 0 example_cycle (loading_widget, Await AtFetch))))
     = 3 \<and>
   snd (run refresh_timeout_env 0 example_cycle (loading_widget, Await AtFetch)) = 6"
proof (intro conjI impI)
  assume a: "failed_with outcome cause \<and> retryCount w + 1 < maxRetries"
  then have "fetchFaqs_result outcome = Inl (JsError cause)" by (simp add: failed_with_result)
  then show "resume_refresh w c outcome =
        (w\<lparr>retryCount := retryCount w + 1, trace := trace w @ [Delay retryDelay]\<rparr>,
         Await AtDelay)"
    using a catch_block_more [of w "JsError cause"] by (simp add: resume_refresh_def)
next
  assume a: "failed_with outcome cause \<and> shadowRoot w \<noteq> None \<and> maxRetries \<le> retryCount w + 1"
  then obtain v where v: "shadowRoot w = Some v" by auto
  from a have "fetchFaqs_result outcome = Inl (JsError cause)" by (simp add: failed_with_result)
  then show "resume_refresh w c outcome =
        (w\<lparr>retryCount := retryCount w + 1,
           shadowRoot := Some (ErrorView (''Failed to load FAQs: '' @ cause)),
           trace := trace w @ [RenderError (''Failed to load FAQs: '' @ cause)]\<rparr>,
         Return)"
    using a catch_block_last [OF v, of "JsError cause"]
    by (simp add: resume_refresh_def)
next
  show "shadowRoot (fst (fst (run refresh_timeout_env 0 example_cycle (loading_widget, Await AtFetch))))
     = Some (ErrorView ''Failed to load FAQs: Request timeout'')"
    by (simp add: remote_eval loop_eval file_only_response_def)
  show "retryCount (fst (fst (run refresh_timeout_env 0 example_cycle (loading_widget, Await AtFetch))))
     = 3"
    by (simp add: remote_eval loop_eval file_only_response_def)
  show "snd (run refresh_timeout_env 0 example_cycle (loading_widget, Await AtFetch)) = 6"
    by (simp add: remote_eval loop_eval file_only_response_def)
qed

lemma attempts_record_call [simp]:
  "attempts (record_call e w) = attempts w + (if is_attempt e then 1 else 0)"
  by (simp add: attempts_def record_call_def)

lemma attempts_retryCount_update [simp]: "attempts (w\<lparr>retryCount := k\<rparr>) = attempts w"
  by (simp add: attempts_def)

lemma attempts_shadowRoot_update [simp]: "attempts (w\<lparr>shadowRoot := v\<rparr>) = attempts w"
  by (simp add: attempts_def)




lemma injectJsonLd_keeps [simp]:
  "attempts (injectJsonLd w faqs heading) = attempts w"
  "retryCount (injectJsonLd w faqs heading) = retryCount w"
  by (simp_all add: injectJsonLd_def Let_def attempts_def)


















lemma resume_fetch_success:
  assumes "shadowRoot w = Some v" "response_ok status" "valid_response r" "faq_list r \<noteq> []"
  shows "resume_fetch w c (Response status (Inr r)) = show_faqs w c (get_prop r ''faqs'')"
  using assms show_faqs_attached(1) [OF assms(1), of c "get_prop r ''faqs''"]
  by (cases "show_faqs w c (get_prop r ''faqs'')")
     (simp add: resume_fetch_def after_fetch_def valid_has_faqs)











lemmas world_eval = third_attempt_widget_def third_refresh_widget_def deliver_all_def resumed_def
  just_crawled_response_def file_only_response_def one_faq_response_def show_nat.simps


lemma third_refresh_facts:
  "shadowRoot third_refresh_widget =
     Some (LoadingView ''Frequently Asked Questions'' ''Generating FAQs... retrying (2/3)'')"
  "retryCount third_refresh_widget = 2"
  by (simp_all add: world_eval remote_eval loop_eval)

lemma example_signals:
  "faq_list just_crawled_response = []" "in_progress just_crawled_response"
  "\<not> has_file_reference just_crawled_response"
  "faq_list file_only_response = []" "has_file_reference file_only_response"
  "faq_list one_faq_response \<noteq> []"
  "faq_list not_in_progress_response = []" "\<not> in_progress not_in_progress_response"
  by (simp_all add: faq_list_def in_progress_def has_file_reference_def flag_set_def
      says_generating_def just_crawled_response_def file_only_response_def
      one_faq_response_def not_in_progress_response_def)



theorem forced_refresh_on_file_reference_witness:
  "response_ok 200 \<and> valid_response file_only_response \<and> faq_list file_only_response = [] \<and>
   has_file_reference file_only_response \<and>
   resume_fetch loading_widget example_cycle (Response 200 (Inr file_only_response)) =
     (loading_widget\<lparr>trace := trace loading_widget @
         [Fetch ''http://localhost:8000''
            [(''url'', ''https://example.com/''), (''force_refresh'', ''true'')] 8000]\<rparr>,
      Await AtRefresh) \<and>
   retryCount loading_widget < maxRetries \<and>
   snd (loop_head loading_widget example_cycle) = Await AtFetch \<and>
   shadowRoot third_refresh_widget \<noteq> None \<and> valid_response one_faq_response \<and>
   faq_list one_faq_response \<noteq> [] \<and>
   snd (resume_refresh third_refresh_widget example_cycle (Response 200 (Inr one_faq_response)))
     = Return \<and>
   shadowRoot (fst (resume_refresh third_refresh_widget example_cycle
       (Response 200 (Inr one_faq_response)))) =
     Some (ContentView ''Frequently Asked Questions''
       [\<lparr>question = ''Q'', answer = ''A'', aria_expanded = False, aria_hidden = True\<rparr>]) \<and>
   retryCount (fst (resume_refresh third_refresh_widget example_cycle
       (Response 200 (Inr one_faq_response)))) = 2"
proof -
  have ok: "response_ok 200" by (simp add: response_ok_def)
  have rc: "retryCount loading_widget = 0" by (simp add: remote_eval)
  have content: "content_of ''Frequently Asked Questions'' (get_prop one_faq_response ''faqs'') =
      ContentView ''Frequently Asked Questions''
       [\<lparr>question = ''Q'', answer = ''A'', aria_expanded = False, aria_hidden = True\<rparr>]"
    by (simp add: content_of_def one_faq_response_def loop_eval)
  note t1 = forced_refresh_on_file_reference [of 200 file_only_response loading_widget
      example_cycle "''https://example.com/''" None True 200 one_faq_response]
  note t2 = forced_refresh_on_file_reference [of 200 file_only_response third_refresh_widget
      example_cycle "''https://example.com/''" None True 200 one_faq_response]
  have a: "resume_fetch loading_widget example_cycle (Response 200 (Inr file_only_response)) =
     (loading_widget\<lparr>trace := trace loading_widget @
         [Fetch ''http://localhost:8000''
            [(''url'', ''https://example.com/''), (''force_refresh'', ''true'')] 8000]\<rparr>,
      Await AtRefresh)"
    using t1 ok valid_examples example_signals
    by (simp add: example_cycle_def query_params_def requestTimeout_def)
  have b: "snd (loop_head loading_widget example_cycle) = Await AtFetch"
    using t1 rc by (simp add: maxRetries_def)
  have c: "snd (resume_refresh third_refresh_widget example_cycle (Response 200 (Inr one_faq_response)))
     = Return \<and>
   shadowRoot (fst (resume_refresh third_refresh_widget example_cycle
       (Response 200 (Inr one_faq_response)))) =
     Some (content_of (c_heading example_cycle) (get_prop one_faq_response ''faqs'')) \<and>
   retryCount (fst (resume_refresh third_refresh_widget example_cycle
       (Response 200 (Inr one_faq_response)))) = 2"
    using t2 ok valid_examples example_signals third_refresh_facts by simp
  show ?thesis
    using a b c ok rc valid_examples example_signals third_refresh_facts content
    by (simp add: maxRetries_def example_cycle_def)
qed

theorem refresh_failure_consumes_attempt_witness:
  "failed_with Aborted ''Request timeout'' \<and> retryCount loading_widget + 1 < maxRetries \<and>
   resume_refresh loading_widget example_cycle Aborted =
     (loading_widget\<lparr>retryCount := 1, trace := trace loading_widget @ [Delay 2000]\<rparr>,
      Await AtDelay) \<and>
   failed_with (Response 503 (Inl (JsError ''Unexpected token''))) ''HTTP 503'' \<and>
   shadowRoot third_refresh_widget \<noteq> None \<and> maxRetries \<le> retryCount third_refresh_widget + 1 \<and>
   resume_refresh third_refresh_widget example_cycle Aborted =
     (third_refresh_widget\<lparr>retryCount := 3,
        shadowRoot := Some (ErrorView ''Failed to load FAQs: Request timeout''),
        trace := trace third_refresh_widget @
          [RenderError ''Failed to load FAQs: Request timeout'']\<rparr>, Return) \<and>
   shadowRoot (fst (resume_refresh third_refresh_widget example_cycle
       (Response 503 (Inl (JsError ''Unexpected token''))))) =
     Some (ErrorView ''Failed to load FAQs: HTTP 503'')"
proof -
  have rc: "retryCount loading_widget = 0" by (simp add: remote_eval)
  have f503: "failed_with (Response 503 (Inl (JsError ''Unexpected token''))) ''HTTP 503''"
    by (simp add: response_ok_def show_nat.simps)
  note t1 = refresh_failure_consumes_attempt [of Aborted "''Request timeout''" loading_widget
      example_cycle]
  note t2 = refresh_failure_consumes_attempt [of Aborted "''Request timeout''"
      third_refresh_widget example_cycle]
  note t3 = refresh_failure_consumes_attempt
      [of "Response 503 (Inl (JsError ''Unexpected token''))" "''HTTP 503''"
        third_refresh_widget example_cycle]
  have a: "resume_refresh loading_widget example_cycle Aborted =
     (loading_widget\<lparr>retryCount := 1, trace := trace loading_widget @ [Delay 2000]\<rparr>,
      Await AtDelay)"
    using t1 rc by (simp add: maxRetries_def retryDelay_def)
  have b: "resume_refresh third_refresh_widget example_cycle Aborted =
     (third_refresh_widget\<lparr>retryCount := 3,
        shadowRoot := Some (ErrorView ''Failed to load FAQs: Request timeout''),
        trace := trace third_refresh_widget @
          [RenderError ''Failed to load FAQs: Request timeout'']\<rparr>, Return)"
    using t2 third_refresh_facts by (simp add: maxRetries_def)
  have c: "shadowRoot (fst (resume_refresh third_refresh_widget example_cycle
       (Response 503 (Inl (JsError ''Unexpected token''))))) =
     Some (ErrorView ''Failed to load FAQs: HTTP 503'')"
    using t3 f503 third_refresh_facts by (simp add: maxRetries_def)
  show ?thesis using a b c rc f503 third_refresh_facts by (simp add: maxRetries_def)
qed

section \<open>Properties of mounting and of overlapping cycles\<close>

lemma getInlineJson_oversized:
  "inlineScript w = Some payload \<Longrightarrow> length payload > 64 * 1024 \<Longrightarrow>
   getInlineJson parse w = (JNull, w)"
  by (simp add: getInlineJson_def maxInlineSize_def)

lemma getInlineJson_within:
  "inlineScript w = Some payload \<Longrightarrow> length payload \<le> 64 * 1024 \<Longrightarrow>
   snd (getInlineJson parse w) = w\<lparr>trace := trace w @ [JsonParse payload]\<rparr>"
  by (simp add: getInlineJson_def maxInlineSize_def Let_def record_call_def split: option.splits)

lemma initializeWidget_no_inline:
  assumes "getInlineJson parse
      (if shadowRoot w = None then w\<lparr>shadowRoot := Some BlankView\<rparr> else w) =
      (JNull, if shadowRoot w = None then w\<lparr>shadowRoot := Some BlankView\<rparr> else w)"
  shows "attributes w ''data-url'' = Some u \<Longrightarrow> u \<noteq> [] \<Longrightarrow>
     snd (initializeWidget parse w) = Some (cycle_for w u, Await AtFetch) \<and>
     shadowRoot (fst (initializeWidget parse w)) =
       Some (LoadingView (attribute_or w ''data-heading'' ''Frequently Asked Questions'')
              ''Loading FAQs...'') \<and>
     retryCount (fst (initializeWidget parse w)) = 0 \<and>
     trace (fst (initializeWidget parse w)) =
       trace w @ [RenderLoading (attribute_or w ''data-heading'' ''Frequently Asked Questions''),
                  Fetch (attribute_or w ''data-api'' ''http://localhost:8000'')
                    (query_params u (attributes w ''data-lang'') False) 8000]"
   and "attributes w ''data-url'' = None \<or> attributes w ''data-url'' = Some [] \<Longrightarrow>
     snd (initializeWidget parse w) = None \<and>
     shadowRoot (fst (initializeWidget parse w)) =
       Some (ErrorView ''No URL provided and no inline FAQs found'') \<and>
     trace (fst (initializeWidget parse w)) =
       trace w @ [RenderError ''No URL provided and no inline FAQs found'']"
  using assms
  by (auto simp: initializeWidget_def Let_def renderLoading_def renderError_def record_call_def
      loadFaqsWithRetry_def loop_head_def fetchFaqs_def maxRetries_def requestTimeout_def
      cycle_for_def)

lemma utf8_size_Nil [simp]: "utf8_size [] = 0"
  by (simp add: utf8_size_def)

lemma utf8_size_append [simp]: "utf8_size (a @ b) = utf8_size a + utf8_size b"
  by (simp add: utf8_size_def)

lemma utf8_size_Cons [simp]:
  "utf8_size (c # s) = (if of_char c < (128::nat) then 1 else 2) + utf8_size s"
  by (simp add: utf8_size_def)

lemma utf8_size_replicate [simp]:
  "utf8_size (replicate n c) = n * (if of_char c < (128::nat) then 1 else 2)"
  by (induction n) simp_all

lemma multibyte_text_sizes:
  "utf8_size multibyte_text > 64 * 1024" "length multibyte_text \<le> 64 * 1024"
  by (simp_all add: multibyte_text_def quoted_def long_note_def)

text \<open>
  Claim C8 as stated fails on the code when size is counted in bytes: the cap is on
  \<^verbatim>\<open>text.length\<close>. \<open>multibyte_text\<close> is more than 64KB of UTF-8 but at most 65536
  characters long; the widget parses it and renders its entry, and although a target URL
  is set no request is made.
\<close>

theorem multibyte_payload_parsed:
  "utf8_size multibyte_text > 64 * 1024 \<and>
   inlineScript multibyte_widget = Some multibyte_text \<and>
   attributes multibyte_widget ''data-url'' = Some ''https://example.com/'' \<and>
   snd (initializeWidget parse_multibyte multibyte_widget) = None \<and>
   shadowRoot (fst (initializeWidget parse_multibyte multibyte_widget)) =
     Some (ContentView ''Frequently Asked Questions''
       [\<lparr>question = ''Q'', answer = ''A'', aria_expanded = False, aria_hidden = True\<rparr>]) \<and>
   trace (fst (initializeWidget parse_multibyte multibyte_widget)) =
     [JsonParse multibyte_text, Render multibyte_value ''Frequently Asked Questions'']"
proof -
  have cap: "\<not> 65536 < length multibyte_text"
    using multibyte_text_sizes(2) by simp
  have "inlineScript multibyte_widget = Some multibyte_text"
    "attributes multibyte_widget ''data-url'' = Some ''https://example.com/''"
    by (simp_all add: multibyte_widget_def FAQWidget_def)
  moreover have "isArray multibyte_value" "truthy multibyte_value" "elements multibyte_value =
      [JObj [(''question'', JStr ''Q''), (''answer'', JStr ''A''), (''note'', JStr long_note)]]"
    by (simp_all add: multibyte_value_def)
  moreover have "validateAndLimitFaqs multibyte_value =
      JArr [JObj [(''question'', JStr ''Q''), (''answer'', JStr ''A'')]]"
    by (simp add: multibyte_value_def has_text_fields_def trim_fields_def both_nonempty_def
        trim_def js_whitespace_def maxFaqs_def)
  ultimately show ?thesis
    using cap multibyte_text_sizes(1)
    by (simp add: multibyte_widget_def FAQWidget_def initializeWidget_def getInlineJson_def
        parse_multibyte_def attribute_or_def render_def injectJsonLd_def record_call_def
        buildAccordion_def maxInlineSize_def maxInlineItems_def Let_def)
qed

text \<open>
  Claim C8, amended. When the inline text is longer than 64 * 1024 characters
  (\<^verbatim>\<open>text.length\<close>, not bytes), \<^verbatim>\<open>getInlineJson\<close> returns \<^verbatim>\<open>null\<close> without calling
  \<^verbatim>\<open>JSON.parse\<close>: the state, with its log of calls, is unchanged, and
  \<^verbatim>\<open>initializeWidget\<close> does the same whatever the parser is. With a non-empty
  \<^verbatim>\<open>data-url\<close> it then only renders the loading markup and issues the first request of a
  new cycle; without one it only renders the error
  ``No URL provided and no inline FAQs found''. A text within the cap is always handed to
  \<^verbatim>\<open>JSON.parse\<close>.
\<close>

theorem oversized_inline_ignored:
  "(inlineScript w = Some payload \<and> length payload > 64 * 1024 \<longrightarrow>
     getInlineJson parse w = (JNull, w) \<and>
     initializeWidget parse w = initializeWidget parse' w \<and>
     (attributes w ''data-url'' = Some u \<and> u \<noteq> [] \<longrightarrow>
        snd (initializeWidget parse w) = Some (cycle_for w u, Await AtFetch) \<and>
        shadowRoot (fst (initializeWidget parse w)) =
          Some (LoadingView (attribute_or w ''data-heading'' ''Frequently Asked Questions'')
                 ''Loading FAQs...'') \<and>
        trace (fst (initializeWidget parse w)) =
          trace w @ [RenderLoading (attribute_or w ''data-heading'' ''Frequently Asked Questions''),
                     Fetch (attribute_or w ''data-api'' ''http://localhost:8000'')
                       (query_params u (attributes w ''data-lang'') False) 8000]) \<and>
     (attributes w ''data-url'' = None \<or> attributes w ''data-url'' = Some [] \<longrightarrow>
        snd (initializeWidget parse w) = None \<and>
        shadowRoot (fst (initializeWidget parse w)) =
          Some (ErrorView ''No URL provided and no inline FAQs found'') \<and>
        trace (fst (initializeWidget parse w)) =
          trace w @ [RenderError ''No URL provided and no inline FAQs found''])) \<and>
   (inlineScript w = Some payload \<and> length payload \<le> 64 * 1024 \<longrightarrow>
      snd (getInlineJson parse w) = w\<lparr>trace := trace w @ [JsonParse payload]\<rparr>)"
proof (intro conjI impI)
  assume a: "inlineScript w = Some payload \<and> length payload > 64 * 1024"
  let ?w0 = "if shadowRoot w = None then w\<lparr>shadowRoot := Some BlankView\<rparr> else w"
  have s: "inlineScript ?w0 = Some payload" using a by simp
  have n: "\<And>p. getInlineJson p ?w0 = (JNull, ?w0)"
    using a getInlineJson_oversized [OF s] by simp
  note np = n [of parse]
  show "getInlineJson parse w = (JNull, w)"
    using a by (simp add: getInlineJson_oversized)
  have n1: "\<And>p. getInlineJson p (w\<lparr>shadowRoot := Some BlankView\<rparr>) =
      (JNull, w\<lparr>shadowRoot := Some BlankView\<rparr>)"
    using a by (simp add: getInlineJson_oversized)
  have n2: "\<And>p. getInlineJson p w = (JNull, w)"
    using a by (simp add: getInlineJson_oversized)
  show "initializeWidget parse w = initializeWidget parse' w"
    by (simp add: initializeWidget_def Let_def n1 n2 cong: option.case_cong sum.case_cong if_cong)
  {
    assume "attributes w ''data-url'' = Some u \<and> u \<noteq> []"
    then show "snd (initializeWidget parse w) = Some (cycle_for w u, Await AtFetch)"
      "shadowRoot (fst (initializeWidget parse w)) =
          Some (LoadingView (attribute_or w ''data-heading'' ''Frequently Asked Questions'')
                 ''Loading FAQs...'')"
      "trace (fst (initializeWidget parse w)) =
          trace w @ [RenderLoading (attribute_or w ''data-heading'' ''Frequently Asked Questions''),
                     Fetch (attribute_or w ''data-api'' ''http://localhost:8000'')
                       (query_params u (attributes w ''data-lang'') False) 8000]"
      using initializeWidget_no_inline(1) [OF np, of u] by simp_all
  }
  {
    assume "attributes w ''data-url'' = None \<or> attributes w ''data-url'' = Some []"
    then show "snd (initializeWidget parse w) = None"
      "shadowRoot (fst (initializeWidget parse w)) =
          Some (ErrorView ''No URL provided and no inline FAQs found'')"
      "trace (fst (initializeWidget parse w)) =
          trace w @ [RenderError ''No URL provided and no inline FAQs found'']"
      using initializeWidget_no_inline(2) [OF np] by simp_all
  }
next
  assume "inlineScript w = Some payload \<and> length payload \<le> 64 * 1024"
  then show "snd (getInlineJson parse w) = w\<lparr>trace := trace w @ [JsonParse payload]\<rparr>"
    by (simp add: getInlineJson_within)
qed

theorem oversized_inline_ignored_witness:
  "inlineScript oversized_remote = Some oversized_text \<and> length oversized_text > 64 * 1024 \<and>
   attributes oversized_remote ''data-url'' = Some ''https://example.com/'' \<and>
   getInlineJson parse_all oversized_remote = (JNull, oversized_remote) \<and>
   initializeWidget parse_all oversized_remote = initializeWidget no_json oversized_remote \<and>
   snd (initializeWidget parse_all oversized_remote) = Some (example_cycle, Await AtFetch) \<and>
   shadowRoot (fst (initializeWidget parse_all oversized_remote)) =
     Some (LoadingView ''Frequently Asked Questions'' ''Loading FAQs...'') \<and>
   trace (fst (initializeWidget parse_all oversized_remote)) =
     [RenderLoading ''Frequently Asked Questions'',
      Fetch ''http://localhost:8000'' [(''url'', ''https://example.com/'')] 8000] \<and>
   inlineScript oversized_local = Some oversized_text \<and>
   attributes oversized_local ''data-url'' = None \<and>
   snd (initializeWidget parse_all oversized_local) = None \<and>
   shadowRoot (fst (initializeWidget parse_all oversized_local)) =
     Some (ErrorView ''No URL provided and no inline FAQs found'') \<and>
   inlineScript multibyte_widget = Some multibyte_text \<and>
   length multibyte_text \<le> 64 * 1024 \<and>
   trace (snd (getInlineJson parse_multibyte multibyte_widget)) = [JsonParse multibyte_text]"
proof -
  have len: "length oversized_text > 64 * 1024" by (simp add: oversized_text_def)
  have r: "inlineScript oversized_remote = Some oversized_text"
    "attributes oversized_remote ''data-url'' = Some ''https://example.com/''"
    "trace oversized_remote = []"
    by (simp_all add: oversized_remote_def FAQWidget_def)
  have l: "inlineScript oversized_local = Some oversized_text"
    "attributes oversized_local ''data-url'' = None"
    by (simp_all add: oversized_local_def FAQWidget_def)
  have m: "inlineScript multibyte_widget = Some multibyte_text" "trace multibyte_widget = []"
    by (simp_all add: multibyte_widget_def FAQWidget_def)
  have c: "cycle_for oversized_remote ''https://example.com/'' = example_cycle"
    by (simp add: cycle_for_def example_cycle_def oversized_remote_def FAQWidget_def
        attribute_or_def)
  have h: "attribute_or oversized_remote ''data-heading'' ''Frequently Asked Questions'' =
      ''Frequently Asked Questions''"
    "attribute_or oversized_remote ''data-api'' ''http://localhost:8000'' =
      ''http://localhost:8000''"
    "query_params ''https://example.com/'' (attributes oversized_remote ''data-lang'') False =
      [(''url'', ''https://example.com/'')]"
    by (simp_all add: oversized_remote_def FAQWidget_def attribute_or_def query_params_def)
  have u: "''https://example.com/'' \<noteq> []" by simp
  note t1 = oversized_inline_ignored [where w = oversized_remote and payload = oversized_text
      and parse = parse_all and parse' = no_json and u = "''https://example.com/''"]
  note t2 = oversized_inline_ignored [where w = oversized_local and payload = oversized_text
      and parse = parse_all and parse' = no_json and u = "''https://example.com/''"]
  note t3 = oversized_inline_ignored [where w = multibyte_widget and payload = multibyte_text
      and parse = parse_multibyte and parse' = no_json and u = "''https://example.com/''"]
  from t1 len r u have a0: "getInlineJson parse_all oversized_remote = (JNull, oversized_remote)"
    and a: "initializeWidget parse_all oversized_remote =
      initializeWidget no_json oversized_remote"
    and b: "snd (initializeWidget parse_all oversized_remote) =
      Some (cycle_for oversized_remote ''https://example.com/'', Await AtFetch)"
    and b': "shadowRoot (fst (initializeWidget parse_all oversized_remote)) =
          Some (LoadingView (attribute_or oversized_remote ''data-heading''
                  ''Frequently Asked Questions'') ''Loading FAQs...'')"
    and b'': "trace (fst (initializeWidget parse_all oversized_remote)) =
          trace oversized_remote @
            [RenderLoading (attribute_or oversized_remote ''data-heading''
                ''Frequently Asked Questions''),
             Fetch (attribute_or oversized_remote ''data-api'' ''http://localhost:8000'')
               (query_params ''https://example.com/''
                  (attributes oversized_remote ''data-lang'') False) 8000]"
    by blast+
  from t2 len l have d: "snd (initializeWidget parse_all oversized_local) = None"
    and d': "shadowRoot (fst (initializeWidget parse_all oversized_local)) =
     Some (ErrorView ''No URL provided and no inline FAQs found'')"
    by blast+
  from t3 m multibyte_text_sizes(2)
  have e: "snd (getInlineJson parse_multibyte multibyte_widget) =
      multibyte_widget\<lparr>trace := trace multibyte_widget @ [JsonParse multibyte_text]\<rparr>"
    by blast
  have e': "trace (snd (getInlineJson parse_multibyte multibyte_widget)) =
      [JsonParse multibyte_text]"
    unfolding e by (simp add: m)
  have b3: "trace (fst (initializeWidget parse_all oversized_remote)) =
     [RenderLoading ''Frequently Asked Questions'',
      Fetch ''http://localhost:8000'' [(''url'', ''https://example.com/'')] 8000]"
    unfolding b'' by (simp add: r h)
  show ?thesis
    by (intro conjI)
       (simp_all only: len r l m a0 a [symmetric] b b' b3 c h d d' e' multibyte_text_sizes)
qed

lemmas superseded_eval = superseded_world_def deliver_all_def attributeChangedCallback_def
  observedAttributes_def resumed_def one_faq_response_def

lemma superseded_facts:
  "cycles superseded_world =
     [(example_cycle, Await AtFetch),
      (example_cycle\<lparr>c_url := ''https://example.com/other''\<rparr>, Await AtFetch)]"
  "shadowRoot (element superseded_world) =
     Some (LoadingView ''Frequently Asked Questions'' ''Loading FAQs...'')"
  "attributes (element superseded_world) ''data-url'' = Some ''https://example.com/other''"
  by (simp_all add: superseded_eval remote_eval)

text \<open>
  Claim C9 as stated fails on the code. On \<open>superseded_world\<close> the target URL has been
  replaced and cycle 1 is waiting for its response under the loading markup; the late
  response of cycle 0 then paints the old URL's entry over it, while cycle 1 is still
  waiting.
\<close>

theorem stale_response_repaints:
  "cycles superseded_world =
     [(example_cycle, Await AtFetch),
      (example_cycle\<lparr>c_url := ''https://example.com/other''\<rparr>, Await AtFetch)] \<and>
   attributes (element superseded_world) ''data-url'' = Some ''https://example.com/other'' \<and>
   shadowRoot (element superseded_world) =
     Some (LoadingView ''Frequently Asked Questions'' ''Loading FAQs...'') \<and>
   shadowRoot (element (deliver no_json superseded_world
       (FetchSettled 0 (Response 200 (Inr one_faq_response))))) =
     Some (ContentView ''Frequently Asked Questions''
       [\<lparr>question = ''Q'', answer = ''A'', aria_expanded = False, aria_hidden = True\<rparr>]) \<and>
   cycles (deliver no_json superseded_world
       (FetchSettled 0 (Response 200 (Inr one_faq_response)))) =
     [(example_cycle, Return),
      (example_cycle\<lparr>c_url := ''https://example.com/other''\<rparr>, Await AtFetch)]"
  by (simp add: superseded_eval remote_eval loop_eval)

text \<open>
  Claim C9, amended. The code has no generation token or other per-cycle guard: when a
  request or timer of any cycle settles, whether or not newer cycles exist, the cycle is
  resumed on the widget's current state, exactly as if it were the only one. In
  particular a late successful response of an older cycle with a non-empty FAQ list
  replaces whatever the root shows with the content markup of that list under the older
  cycle's heading.
\<close>

theorem stale_callbacks_unguarded:
  "(k < length (cycles wd) \<and> cycles wd ! k = (c, Await AtFetch) \<longrightarrow>
      deliver parse wd (FetchSettled k outcome) =
        resumed wd k c (resume_fetch (element wd) c outcome)) \<and>
   (k < length (cycles wd) \<and> cycles wd ! k = (c, Await AtRefresh) \<longrightarrow>
      deliver parse wd (FetchSettled k outcome) =
        resumed wd k c (resume_refresh (element wd) c outcome)) \<and>
   (k < length (cycles wd) \<and> cycles wd ! k = (c, Await AtDelay) \<longrightarrow>
      deliver parse wd (TimerFired k) = resumed wd k c (resume_delay (element wd) c)) \<and>
   (k < length (cycles wd) \<and> cycles wd ! k = (c, Await AtFetch) \<and>
    shadowRoot (element wd) \<noteq> None \<and> response_ok status \<and> valid_response r \<and>
    faq_list r \<noteq> [] \<longrightarrow>
      shadowRoot (element (deliver parse wd (FetchSettled k (Response status (Inr r))))) =
        Some (content_of (c_heading c) (get_prop r ''faqs'')))"
proof (intro conjI impI)
  assume "k < length (cycles wd) \<and> cycles wd ! k = (c, Await AtFetch)"
  then show "deliver parse wd (FetchSettled k outcome) =
        resumed wd k c (resume_fetch (element wd) c outcome)"
    by simp
next
  assume "k < length (cycles wd) \<and> cycles wd ! k = (c, Await AtRefresh)"
  then show "deliver parse wd (FetchSettled k outcome) =
        resumed wd k c (resume_refresh (element wd) c outcome)"
    by simp
next
  assume "k < length (cycles wd) \<and> cycles wd ! k = (c, Await AtDelay)"
  then show "deliver parse wd (TimerFired k) = resumed wd k c (resume_delay (element wd) c)"
    by simp
next
  assume a: "k < length (cycles wd) \<and> cycles wd ! k = (c, Await AtFetch) \<and>
    shadowRoot (element wd) \<noteq> None \<and> response_ok status \<and> valid_response r \<and>
    faq_list r \<noteq> []"
  then obtain v where v: "shadowRoot (element wd) = Some v" by auto
  have "resume_fetch (element wd) c (Response status (Inr r)) =
      show_faqs (element wd) c (get_prop r ''faqs'')"
    using a resume_fetch_success [OF v] by simp
  then show "shadowRoot (element (deliver parse wd (FetchSettled k (Response status (Inr r))))) =
        Some (content_of (c_heading c) (get_prop r ''faqs''))"
    using a show_faqs_attached(2) [OF v] by (simp add: resumed_def)
qed

theorem stale_callbacks_unguarded_witness:
  "(0::nat) < length (cycles superseded_world) \<and>
   Suc 0 < length (cycles superseded_world) \<and>
   cycles superseded_world ! 0 = (example_cycle, Await AtFetch) \<and>
   shadowRoot (element superseded_world) \<noteq> None \<and> response_ok 200 \<and>
   valid_response one_faq_response \<and> faq_list one_faq_response \<noteq> [] \<and>
   shadowRoot (element (deliver no_json superseded_world
       (FetchSettled 0 (Response 200 (Inr one_faq_response))))) =
     Some (content_of ''Frequently Asked Questions'' (get_prop one_faq_response ''faqs''))"
proof -
  have ok: "response_ok 200" by (simp add: response_ok_def)
  note t = stale_callbacks_unguarded [of 0 superseded_world example_cycle no_json
      "Response 200 (Inr one_faq_response)" 200 one_faq_response]
  have h: "c_heading example_cycle = ''Frequently Asked Questions''"
    by (simp add: example_cycle_def)
  show ?thesis
    using t ok superseded_facts valid_examples example_signals h by simp
qed

section \<open>The accordion after a re-render\<close>

lemmas rerender_eval = rerendered_widget_def shrunk_widget_def three_faq_response_def
  three_faqs_def one_faq_response_def deliver_all_def resumed_def attributeChangedCallback_def
  observedAttributes_def item_count_def open_items_def is_open_def toggleItem_def closeItem_def
  openItem_def undefined_element_def

text \<open>
  Claim C7 fails on the code after a re-render, through the defect of claim C6: the
  selection kept from the old markup is stale. On the three-item page re-rendered with
  item 1 selected, no item is open, yet \<^verbatim>\<open>toggleItem(1)\<close> leaves item 1 closed. On the
  remote page re-rendered with one item while index 2 is selected, \<^verbatim>\<open>toggleItem(0)\<close>
  raises in \<^verbatim>\<open>closeItem\<close>, changes nothing and opens nothing.
\<close>

theorem toggleItem_after_rerender:
  "item_count rerendered_widget = 3 \<and> open_items rerendered_widget = [] \<and>
   snd (toggleItem rerendered_widget 1) = None \<and>
   open_items (fst (toggleItem rerendered_widget 1)) = [] \<and>
   item_count shrunk_widget = 1 \<and> open_items shrunk_widget = [] \<and>
   currentOpenIndex shrunk_widget = 2 \<and>
   toggleItem shrunk_widget 0 = (shrunk_widget, Some undefined_element) \<and>
   open_items (fst (toggleItem shrunk_widget 0)) = []"
proof -
  have a: "item_count rerendered_widget = 3 \<and> open_items rerendered_widget = [] \<and>
   snd (toggleItem rerendered_widget 1) = None \<and>
   open_items (fst (toggleItem rerendered_widget 1)) = []"
    by (simp add: rerender_eval page_eval)
  have root: "shadowRoot shrunk_widget =
      Some (ContentView ''Frequently Asked Questions''
        [\<lparr>question = ''Q'', answer = ''A'', aria_expanded = False, aria_hidden = True\<rparr>])"
    and sel: "currentOpenIndex shrunk_widget = 2"
    by (simp_all add: rerender_eval remote_eval loop_eval)
  have b: "item_count shrunk_widget = 1 \<and> open_items shrunk_widget = [] \<and>
   toggleItem shrunk_widget 0 = (shrunk_widget, Some undefined_element)"
    by (simp add: root sel item_count_def open_items_def is_open_def toggleItem_def
        closeItem_def)
  from a b sel show ?thesis by simp
qed

end
